theory Spec2Isabelle
  imports Main
begin

section \<open>Identity bootstrap of a node (server/node.go)\<close>

text \<open>
  A shallow embedding of \<^verbatim>\<open>server/node.go\<close>. Each Go function of that file is a HOL
  function of the same name. State that the Go code mutates through pointers (the node,
  the key/value client, the gossip instance, the engines) is passed in and returned.

  Integers: \<^verbatim>\<open>roachpb.NodeID\<close> and \<^verbatim>\<open>roachpb.StoreID\<close> are declared in package
  \<^verbatim>\<open>roachpb\<close>, outside this file; the file only shows that they are signed
  (\<^verbatim>\<open>id < 0\<close>) and converts counters (\<^verbatim>\<open>int64\<close>) and slice indices (\<^verbatim>\<open>int\<close>) to them.
  Identifiers and counters are modelled as \<^typ>\<open>int\<close>: the arithmetic of the file is
  \<^verbatim>\<open>r - inc + 1\<close>, \<^verbatim>\<open>i + 1\<close> and \<^verbatim>\<open>StoreID++\<close> on identifiers handed out by a
  counter, and the results below are about the values of these expressions while they
  stay inside the range of the Go types.
\<close>

subsection \<open>Data\<close>

type_synonym NodeID = int
type_synonym StoreID = int

text \<open>\<^verbatim>\<open>roachpb.StoreIdent\<close>, as the file builds it: cluster, node and store identifier.\<close>

record StoreIdent =
  ident_ClusterID :: string
  ident_NodeID :: NodeID
  ident_StoreID :: StoreID

text \<open>
  \<^verbatim>\<open>util.UnresolvedAddr\<close> (compared by value with \<^verbatim>\<open>*uaddr == n.Descriptor.Address\<close>) and
  the other implementations of \<^verbatim>\<open>net.Addr\<close> a resolver may return.
\<close>

record UnresolvedAddr =
  NetworkField :: string
  AddressField :: string

datatype net_Addr = Unresolved UnresolvedAddr | OtherAddr string

text \<open>
  \<^verbatim>\<open>roachpb.NodeDescriptor\<close>: the fields the file reads and writes. The zero value of a Go
  struct has \<^verbatim>\<open>NodeID = 0\<close>.
\<close>

record NodeDescriptor =
  NodeID :: NodeID
  Address :: UnresolvedAddr
  Attrs :: "string list"

type_synonym KeyValue = "string \<times> string"

text \<open>
  Modelled from the spec: a storage engine (\<^verbatim>\<open>engine.Engine\<close>, declared outside this file),
  as far as this file consults it. The storage-engine collaborator (package \<^verbatim>\<open>storage\<close>) is
  consumed as \<^verbatim>\<open>Start -> ok | NotBootstrapped | error\<close>, \<^verbatim>\<open>Bootstrap(StoreIdent) -> ok | error\<close>,
  \<^verbatim>\<open>Capacity() -> capacityInfo | error\<close> and a readable \<^verbatim>\<open>Ident\<close>; each engine stores
  exactly one StoreIdent record. The engine holds the persisted StoreIdent (if any), the
  key/value data written into it, and, for each fallible operation, the error it reports
  on this engine (\<open>None\<close>: the operation succeeds).
\<close>

record Engine =
  engine_name :: string
  persisted :: "StoreIdent option"
  data :: "KeyValue list"
  start_err :: "string option"
  bootstrap_err :: "string option"
  range_err :: "string option"
  capacity_err :: "string option"

text \<open>
  Modelled from the spec: \<^verbatim>\<open>*storage.Store\<close> (declared outside this file), the handle
  \<^verbatim>\<open>storage.NewStore\<close> returns for an engine: "a store that can be started, bootstrapped,
  report capacity", with "a readable \<^verbatim>\<open>Ident\<close> field".
\<close>

record Store =
  Ident :: StoreIdent
  engine :: Engine
  started :: bool

text \<open>
  Go \<^verbatim>\<open>error\<close> values. The file builds its errors with \<^verbatim>\<open>util.Errorf\<close> and
  \<^verbatim>\<open>fmt.Errorf\<close>; each call site is a constructor whose arguments are the arguments of
  the format string. \<open>External\<close> is an error reported by a collaborator.
\<close>

datatype error =
    errNeedsBootstrap
  | errCannotJoinSelf
  | External string
  | NotBootstrappedError
  | UnableToAllocateNodeID error
  | UnableToAllocateStoreIDs int NodeID error
  | AlreadyBelongsToCluster string
  | ExpectedNodeIDAllocator NodeID NodeID "error option"
  | ExpectedStoreIDAllocator StoreID StoreID "error option"
  | NoEngines
  | FailedToStartStore error
  | UnidentifiedStore Store
  | CouldNotQueryCapacity error
  | FailedToInitializeGossip error
  | StoreClusterIDMismatch Store string
  | StoreNodeIDMismatch Store NodeID
  | CannotUnmarshalTrace error
  | NodeStopped NodeID

text \<open>
  The ways a call does not return to its caller: \<^verbatim>\<open>log.Fatal\<close>/\<^verbatim>\<open>log.Fatalf\<close> (the process
  exits), \<^verbatim>\<open>panic\<close>, and waiting forever on a channel.
\<close>

datatype halt =
    FatalNegativeNodeID
  | FatalNodeIDAlreadySet NodeID NodeID
  | Fatal error
  | FatalIllegalNodeID0
  | FatalGossipDescriptor NodeID error
  | FatalGossipClusterID error
  | FatalClusterMismatch NodeID string string
  | FatalRegister error
  | PanicClusterIDMissing
  | PanicErrorUnexpectedlySet
  | PanicNilDereference
  | PanicEncodeSpan error
  | Blocked

subsection \<open>The key/value client\<close>

datatype key = NodeIDGenerator | StoreIDGenerator

text \<open>
  Modelled from the spec: \<^verbatim>\<open>*client.DB\<close> (package \<^verbatim>\<open>client\<close>, outside this file). The
  key/value collaborator is consumed as \<^verbatim>\<open>Increment(counterKey, delta) -> newValue | error\<close>,
  an atomic increment of a counter key. The state is the value of each counter, the calls
  made so far (key and delta), and which calls fail: \<open>inc_err db i\<close> is the error of call
  number \<open>i\<close>, if it fails.
\<close>

record DB =
  counter :: "key \<Rightarrow> int"
  inc_calls :: "(key \<times> int) list"
  inc_err :: "nat \<Rightarrow> string option"

text \<open>
  Modelled from the spec: \<^verbatim>\<open>db.Inc(key, delta)\<close> (package \<^verbatim>\<open>client\<close>) "performs an atomic
  increment of a dedicated counter key" and answers with "the post-increment value", or
  with an error. A failed call leaves the counter as it was.
\<close>

definition Inc :: "key \<Rightarrow> int \<Rightarrow> DB \<Rightarrow> (error + int) \<times> DB" where
  "Inc k delta db =
     (let db' = db\<lparr>inc_calls := inc_calls db @ [(k, delta)]\<rparr>
      in case inc_err db (length (inc_calls db)) of
           Some e \<Rightarrow> (Inl (External e), db')
         | None \<Rightarrow> (Inr (counter db k + delta),
                     db'\<lparr>counter := (counter db)(k := counter db k + delta)\<rparr>))"

text \<open>
  \<^verbatim>\<open>allocateNodeID\<close> and \<^verbatim>\<open>allocateStoreIDs\<close> return a pair of a value and an error, as the
  Go functions do: \<^verbatim>\<open>(0, err)\<close> on failure, \<^verbatim>\<open>(id, nil)\<close> on success.
\<close>

definition allocateNodeID :: "DB \<Rightarrow> (NodeID \<times> error option) \<times> DB" where
  "allocateNodeID db =
     (case Inc NodeIDGenerator 1 db of
        (Inl err, db') \<Rightarrow> ((0, Some (UnableToAllocateNodeID err)), db')
      | (Inr r, db') \<Rightarrow> ((r, None), db'))"

definition allocateStoreIDs :: "NodeID \<Rightarrow> int \<Rightarrow> DB \<Rightarrow> (StoreID \<times> error option) \<times> DB" where
  "allocateStoreIDs nodeID inc db =
     (case Inc StoreIDGenerator inc db of
        (Inl err, db') \<Rightarrow> ((0, Some (UnableToAllocateStoreIDs inc nodeID err)), db')
      | (Inr r, db') \<Rightarrow> ((r - inc + 1, None), db'))"

subsection \<open>Stores and the Store Registry\<close>

definition zeroIdent :: StoreIdent where
  "zeroIdent = \<lparr>ident_ClusterID = [], ident_NodeID = 0, ident_StoreID = 0\<rparr>"

text \<open>
  Modelled from the spec: \<^verbatim>\<open>storage.NewStore(ctx, eng, nodeDesc)\<close> (package \<^verbatim>\<open>storage\<close>).
  The Bootstrap Protocol rejects an engine that "already carries a
  non-empty ClusterID" by reading \<^verbatim>\<open>s.Ident.ClusterID\<close> of the new handle, so the handle
  shows the StoreIdent the engine carries, and the zero StoreIdent when it carries none.
  The context and the node descriptor given to the handle are not read back by this file.
\<close>

definition NewStore :: "Engine \<Rightarrow> Store" where
  "NewStore eng =
     \<lparr>Ident = (case persisted eng of None \<Rightarrow> zeroIdent | Some i \<Rightarrow> i),
      engine = eng, started = False\<rparr>"

text \<open>
  Modelled from the spec: \<^verbatim>\<open>s.Start(stopper)\<close> (package \<^verbatim>\<open>storage\<close>), consumed as
  \<^verbatim>\<open>Start(stopSignal) -> ok | NotBootstrapped | error\<close>; a store
  whose engine holds no StoreIdent reports the "not yet identified" condition, and a
  started store shows the StoreIdent its engine holds.
\<close>

definition Start :: "Store \<Rightarrow> error option \<times> Store" where
  "Start s =
     (case persisted (engine s) of
        None \<Rightarrow> (Some NotBootstrappedError, s)
      | Some i \<Rightarrow>
          (case start_err (engine s) of
             Some e \<Rightarrow> (Some (External e), s)
           | None \<Rightarrow> (None, s\<lparr>Ident := i, started := True\<rparr>)))"

text \<open>
  Modelled from the spec: \<^verbatim>\<open>s.Bootstrap(ident, stopper)\<close> (package \<^verbatim>\<open>storage\<close>), consumed as
  \<^verbatim>\<open>Bootstrap(StoreIdent, stopSignal) -> ok | error\<close>; it persists the StoreIdent into the
  engine.
\<close>

definition Bootstrap :: "StoreIdent \<Rightarrow> Store \<Rightarrow> error option \<times> Store" where
  "Bootstrap ident s =
     (case bootstrap_err (engine s) of
        Some e \<Rightarrow> (Some (External e), s)
      | None \<Rightarrow> (None, s\<lparr>Ident := ident, engine := (engine s)\<lparr>persisted := Some ident\<rparr>\<rparr>))"

text \<open>
  Modelled from the spec: \<^verbatim>\<open>s.BootstrapRange(initialValues)\<close> (package \<^verbatim>\<open>storage\<close>) writes
  "an initial key/value seed set (schema/metadata) directly into the engine".
\<close>

definition BootstrapRange :: "KeyValue list \<Rightarrow> Store \<Rightarrow> error option \<times> Store" where
  "BootstrapRange initialValues s =
     (case range_err (engine s) of
        Some e \<Rightarrow> (Some (External e), s)
      | None \<Rightarrow> (None, s\<lparr>engine := (engine s)\<lparr>data := data (engine s) @ initialValues\<rparr>\<rparr>))"

text \<open>
  Modelled from the spec: \<^verbatim>\<open>s.Capacity()\<close> (package \<^verbatim>\<open>storage\<close>), consumed as
  \<^verbatim>\<open>Capacity() -> capacityInfo | error\<close>. The capacity itself is only logged by this file;
  the model keeps the error.
\<close>

definition Capacity :: "Store \<Rightarrow> error option" where
  "Capacity s = map_option External (capacity_err (engine s))"

text \<open>
  \<^verbatim>\<open>roachpb.BatchRequest\<close>, \<^verbatim>\<open>roachpb.BatchResponse\<close> and \<^verbatim>\<open>*roachpb.Error\<close>, with the fields
  the file reads and writes; the rest of a message is an opaque payload.
\<close>

type_synonym pError = string

record TraceInfo =
  Context :: string
  Attributes :: string

record BatchRequest =
  Trace :: "TraceInfo option"
  Requests :: string

record BatchResponse =
  Error :: "pError option"
  CollectedSpans :: "string list"
  Responses :: string

definition emptyResponse :: BatchResponse where
  "emptyResponse = \<lparr>Error = None, CollectedSpans = [], Responses = []\<rparr>"

text \<open>
  Modelled from the spec: \<^verbatim>\<open>*storage.Stores\<close> (package \<^verbatim>\<open>storage\<close>), the Store Registry,
  "an in-process multiplexer holding the set of locally running
  storage engines, keyed by store ID; routes a batch command to the store owning it";
  an entry is "added exactly once, never removed". The registry is the list of the stores
  added, and the list of the requests it was asked to route. Go iterates a map in no fixed
  order: the order of the list stands for the order of one visit, and the results about a
  visit hold for every list.
\<close>

record Stores =
  storeMap :: "Store list"
  sent :: "BatchRequest list"

text \<open>
  Modelled from the spec: \<^verbatim>\<open>storage.NewStores\<close>, \<^verbatim>\<open>AddStore\<close> and \<^verbatim>\<open>GetStoreCount\<close> of the
  registry (package \<^verbatim>\<open>storage\<close>): a new registry holds no store, an entry is added once,
  and the count is the number of entries.
\<close>

definition NewStores :: Stores where
  "NewStores = \<lparr>storeMap = [], sent = []\<rparr>"

definition AddStore :: "Store \<Rightarrow> Stores \<Rightarrow> Stores" where
  "AddStore s ls = ls\<lparr>storeMap := storeMap ls @ [s]\<rparr>"

definition GetStoreCount :: "Stores \<Rightarrow> nat" where
  "GetStoreCount ls = length (storeMap ls)"

text \<open>
  Modelled from the spec: \<^verbatim>\<open>n.stores.Send(ctx, ba)\<close> (package \<^verbatim>\<open>storage\<close>), the routing
  function; it "determines target store(s) by key range and returns a
  response plus an optional structured error". What the routing layer answers is the
  parameter \<open>routing\<close>; the response is a pointer, so it may be \<^verbatim>\<open>nil\<close> (\<open>None\<close>).
\<close>

type_synonym Routing = "Store list \<Rightarrow> BatchRequest \<Rightarrow> BatchResponse option \<times> pError option"

definition Send :: "Routing \<Rightarrow> BatchRequest \<Rightarrow> Stores \<Rightarrow> (BatchResponse option \<times> pError option) \<times> Stores" where
  "Send routing ba ls = (routing (storeMap ls) ba, ls\<lparr>sent := sent ls @ [ba]\<rparr>)"

subsection \<open>Gossip, stopper, event feed\<close>

text \<open>
  Modelled from the spec: a resolver (package \<^verbatim>\<open>resolver\<close>) is one of the "addresses of
  other cluster members"; as the file uses it, it answers \<^verbatim>\<open>GetAddress()\<close> with an address
  or an error.
\<close>

datatype Resolver = Resolver (GetAddress: "string + net_Addr")

text \<open>
  Modelled from the spec: \<^verbatim>\<open>*gossip.Gossip\<close> (package \<^verbatim>\<open>gossip\<close>). The gossip substrate
  is consumed as "a connectivity-ready signal,
  \<^verbatim>\<open>GetInfo(clusterIDKey) -> bytes | error\<close>, \<^verbatim>\<open>SetStorage(registry) -> ok | error\<close>,
  \<^verbatim>\<open>SetNodeID(id)\<close>, \<^verbatim>\<open>SetNodeDescriptor(descriptor) -> ok | error\<close>,
  \<^verbatim>\<open>GetResolvers() -> list of resolver\<close>, \<^verbatim>\<open>SetResolvers(list)\<close>". \<open>Connected\<close> says
  whether the connectivity signal ever fires; \<open>clusterIDInfo\<close> is the answer of
  \<^verbatim>\<open>GetInfo(gossip.KeyClusterID)\<close>.
\<close>

record Gossip =
  Connected :: bool
  clusterIDInfo :: "string + string"
  resolvers :: "Resolver list"
  gossip_NodeID :: NodeID
  gossip_Descriptor :: "NodeDescriptor option"
  descriptor_err :: "string option"
  gossip_storage :: bool
  storage_err :: "string option"

text \<open>
  Modelled from the spec: the operations of the gossip instance that the file calls. Each
  reads or writes the field of its name; \<^verbatim>\<open>SetNodeDescriptor\<close> and \<^verbatim>\<open>SetStorage\<close> answer
  \<^verbatim>\<open>ok | error\<close>.
\<close>

definition GetResolvers :: "Gossip \<Rightarrow> Resolver list" where
  "GetResolvers g = resolvers g"

definition SetResolvers :: "Resolver list \<Rightarrow> Gossip \<Rightarrow> Gossip" where
  "SetResolvers rs g = g\<lparr>resolvers := rs\<rparr>"

definition GetInfo_KeyClusterID :: "Gossip \<Rightarrow> error + string" where
  "GetInfo_KeyClusterID g =
     (case clusterIDInfo g of Inl e \<Rightarrow> Inl (External e) | Inr bytes \<Rightarrow> Inr bytes)"

definition SetNodeID :: "NodeID \<Rightarrow> Gossip \<Rightarrow> Gossip" where
  "SetNodeID nodeID g = g\<lparr>gossip_NodeID := nodeID\<rparr>"

definition SetNodeDescriptor :: "NodeDescriptor \<Rightarrow> Gossip \<Rightarrow> error option \<times> Gossip" where
  "SetNodeDescriptor d g =
     (case descriptor_err g of
        Some e \<Rightarrow> (Some (External e), g)
      | None \<Rightarrow> (None, g\<lparr>gossip_Descriptor := Some d\<rparr>))"

definition SetStorage :: "Gossip \<Rightarrow> error option \<times> Gossip" where
  "SetStorage g =
     (case storage_err g of
        Some e \<Rightarrow> (Some (External e), g)
      | None \<Rightarrow> (None, g\<lparr>gossip_storage := True\<rparr>))"

text \<open>
  Modelled from the spec: \<^verbatim>\<open>*stop.Stopper\<close> (package \<^verbatim>\<open>stop\<close>). It gives "scoped task
  admission: if the node is stopping, fail immediately"; store bootstrapping is scheduled
  "to run concurrently". \<open>tasks\<close> holds the pending lists handed to \<^verbatim>\<open>RunAsyncTask\<close> (each
  is one deferred call of \<^verbatim>\<open>bootstrapStores\<close>).
\<close>

record Stopper =
  stopping :: bool
  tasks :: "Store list list"

text \<open>
  Modelled from the spec: \<^verbatim>\<open>stopper.RunAsyncTask(f)\<close> (package \<^verbatim>\<open>stop\<close>) schedules the task
  "to run concurrently and return[s] success immediately".
\<close>

definition RunAsyncTask :: "Store list \<Rightarrow> Stopper \<Rightarrow> Stopper" where
  "RunAsyncTask bootstraps st = st\<lparr>tasks := tasks st @ [bootstraps]\<rparr>"

text \<open>
  Events published on \<^verbatim>\<open>status.NodeEventFeed\<close>. The duration of a call is read from the
  wall clock and is not part of the model.
\<close>

datatype FeedEvent =
    StartNode NodeDescriptor int
  | CallComplete BatchRequest "pError option"

subsection \<open>The node\<close>

text \<open>
  \<^verbatim>\<open>Node\<close>: the fields of the struct that the file reads and writes; \<open>ctx_DB\<close> and
  \<open>ctx_Gossip\<close> are \<^verbatim>\<open>n.ctx.DB\<close> and \<^verbatim>\<open>n.ctx.Gossip\<close>. \<open>feed\<close> holds the events published.
\<close>

record Node =
  stopper :: Stopper
  ClusterID :: string
  Descriptor :: NodeDescriptor
  ctx_DB :: DB
  ctx_Gossip :: Gossip
  stores :: Stores
  feed :: "FeedEvent list"
  startedAt :: int

text \<open>\<^verbatim>\<open>initDescriptor\<close>: \<open>addr\<close> is \<^verbatim>\<open>util.MakeUnresolvedAddr(addr.Network(), addr.String())\<close>.\<close>

definition initDescriptor :: "UnresolvedAddr \<Rightarrow> string list \<Rightarrow> Node \<Rightarrow> Node" where
  "initDescriptor addr attrs n =
     n\<lparr>Descriptor := (Descriptor n)\<lparr>Address := addr, Attrs := attrs\<rparr>\<rparr>"

text \<open>
  \<^verbatim>\<open>NewNode\<close>: the fields the Go literal leaves out have their zero values. \<open>db\<close> and \<open>g\<close>
  are \<^verbatim>\<open>ctx.DB\<close> and \<^verbatim>\<open>ctx.Gossip\<close>.
\<close>

definition NewNode :: "DB \<Rightarrow> Gossip \<Rightarrow> Stopper \<Rightarrow> Node" where
  "NewNode db g st =
     \<lparr>stopper = st, ClusterID = [],
      Descriptor = \<lparr>NodeID = 0, Address = \<lparr>NetworkField = [], AddressField = []\<rparr>, Attrs = []\<rparr>,
      ctx_DB = db, ctx_Gossip = g, stores = NewStores, feed = [], startedAt = 0\<rparr>"

text \<open>
  \<^verbatim>\<open>initNodeID\<close>. A call either returns the node (\<open>Inr\<close>) or halts the process (\<open>Inl\<close>).
  The parameter \<^verbatim>\<open>id\<close> of the Go function is \<open>nodeID\<close> here; the Go code assigns the
  allocated identifier to the same variable (\<open>id1\<close> is its value after the branch).
\<close>

definition initNodeID :: "NodeID \<Rightarrow> Node \<Rightarrow> halt + Node" where
  "initNodeID nodeID n =
     (if nodeID < 0 then Inl FatalNegativeNodeID
      else if NodeID (Descriptor n) > 0 then
        (if nodeID = 0 then Inr n
         else Inl (FatalNodeIDAlreadySet nodeID (NodeID (Descriptor n))))
      else
        (case (if nodeID = 0 then
                 (case allocateNodeID (ctx_DB n) of
                    ((id', Some err), db') \<Rightarrow> Inl (Fatal err)
                  | ((id', None), db') \<Rightarrow>
                      if id' = 0 then Inl FatalIllegalNodeID0
                      else Inr (id', n\<lparr>ctx_DB := db',
                                        ctx_Gossip := SetNodeID id' (ctx_Gossip n)\<rparr>))
               else Inr (nodeID, n)) of
           Inl h \<Rightarrow> Inl h
         | Inr (id1, n1) \<Rightarrow>
             (let n2 = n1\<lparr>Descriptor := (Descriptor n1)\<lparr>NodeID := id1\<rparr>\<rparr>
              in case SetNodeDescriptor (Descriptor n2) (ctx_Gossip n2) of
                   (Some err, g) \<Rightarrow> Inl (FatalGossipDescriptor (NodeID (Descriptor n2)) err)
                 | (None, g) \<Rightarrow> Inr (n2\<lparr>ctx_Gossip := g\<rparr>))))"

text \<open>
  Modelled from the spec: \<^verbatim>\<open>n.stores.VisitStores(visitor)\<close> (package \<^verbatim>\<open>storage\<close>). It
  "visits every store currently in the Store Registry ... each
  exactly once per call"; a mismatch "aborts", so the visit ends at the first error the
  visitor returns and hands that error back. The visitor is a Go closure: the state it
  closes over (here \<open>'st\<close>; the node, for \<^verbatim>\<open>validateStores\<close>) is taken and returned.
\<close>

fun VisitStores ::
  "(Store \<Rightarrow> 'st \<Rightarrow> halt + (error option \<times> 'st)) \<Rightarrow> Store list \<Rightarrow> 'st \<Rightarrow>
   halt + (error option \<times> 'st)" where
  "VisitStores visitor [] n = Inr (None, n)"
| "VisitStores visitor (s # ss) n =
     (case visitor s n of
        Inl h \<Rightarrow> Inl h
      | Inr (Some err, n') \<Rightarrow> Inr (Some err, n')
      | Inr (None, n') \<Rightarrow> VisitStores visitor ss n')"

text \<open>
  To say which stores a visit reaches, a visitor is wrapped in a closure that does what the
  visitor does and notes, in a list beside the visitor's state, the store it was called
  on: \<open>VisitStores (recording visitor) ss (st, [])\<close> is the visit
  \<open>VisitStores visitor ss st\<close> together with the stores visited, in the order of the visit.
\<close>

definition recording ::
  "(Store \<Rightarrow> 'st \<Rightarrow> halt + (error option \<times> 'st)) \<Rightarrow>
   Store \<Rightarrow> 'st \<times> Store list \<Rightarrow> halt + (error option \<times> 'st \<times> Store list)" where
  "recording visitor s state =
     (case visitor s (fst state) of
        Inl h \<Rightarrow> Inl h
      | Inr (err, st') \<Rightarrow> Inr (err, st', snd state @ [s]))"

text \<open>\<^verbatim>\<open>validateStores\<close>: the closure given to \<^verbatim>\<open>VisitStores\<close>, then the function.\<close>

definition validateStores_visitor :: "Store \<Rightarrow> Node \<Rightarrow> halt + (error option \<times> Node)" where
  "validateStores_visitor s n =
     (if ClusterID n = [] then
        (case initNodeID (ident_NodeID (Ident s)) (n\<lparr>ClusterID := ident_ClusterID (Ident s)\<rparr>) of
           Inl h \<Rightarrow> Inl h
         | Inr n' \<Rightarrow> Inr (None, n'))
      else if ClusterID n \<noteq> ident_ClusterID (Ident s) then
        Inr (Some (StoreClusterIDMismatch s (ClusterID n)), n)
      else if NodeID (Descriptor n) \<noteq> ident_NodeID (Ident s) then
        Inr (Some (StoreNodeIDMismatch s (NodeID (Descriptor n))), n)
      else Inr (None, n))"

definition validateStores :: "Node \<Rightarrow> halt + (error option \<times> Node)" where
  "validateStores n = VisitStores validateStores_visitor (storeMap (stores n)) n"

text \<open>
  \<^verbatim>\<open>connectGossip\<close>. The receive on \<^verbatim>\<open>n.ctx.Gossip.Connected\<close> has no timeout: when the signal
  never fires, the call never returns (\<open>Blocked\<close>).
\<close>

definition connectGossip :: "Node \<Rightarrow> halt + Node" where
  "connectGossip n =
     (if \<not> Connected (ctx_Gossip n) then Inl Blocked
      else case GetInfo_KeyClusterID (ctx_Gossip n) of
             Inl err \<Rightarrow> Inl (FatalGossipClusterID err)
           | Inr bytes \<Rightarrow>
               (let gossipClusterID = bytes
                in if ClusterID n = [] then Inr (n\<lparr>ClusterID := gossipClusterID\<rparr>)
                   else if ClusterID n \<noteq> gossipClusterID then
                     Inl (FatalClusterMismatch (NodeID (Descriptor n)) (ClusterID n) gossipClusterID)
                   else Inr n))"

text \<open>
  \<^verbatim>\<open>bootstrapStores\<close>: the loop over the pending list, then the function. \<^verbatim>\<open>s.GossipStore()\<close>
  broadcasts the store on the gossip network and leaves the state of this model as it is.
\<close>

fun bootstrapStores_loop :: "Store list \<Rightarrow> StoreIdent \<Rightarrow> Node \<Rightarrow> halt + Node" where
  "bootstrapStores_loop [] sIdent n = Inr n"
| "bootstrapStores_loop (s # rest) sIdent n =
     (case Bootstrap sIdent s of
        (Some err, s1) \<Rightarrow> Inl (Fatal err)
      | (None, s1) \<Rightarrow>
          (case Start s1 of
             (Some err, s2) \<Rightarrow> Inl (Fatal err)
           | (None, s2) \<Rightarrow>
               bootstrapStores_loop rest
                 (sIdent\<lparr>ident_StoreID := ident_StoreID sIdent + 1\<rparr>)
                 (n\<lparr>stores := AddStore s2 (stores n)\<rparr>)))"

definition bootstrapStores :: "Store list \<Rightarrow> Node \<Rightarrow> halt + Node" where
  "bootstrapStores bootstraps n =
     (if ClusterID n = [] then Inl PanicClusterIDMissing
      else
        (let inc = int (length bootstraps)
         in case allocateStoreIDs (NodeID (Descriptor n)) inc (ctx_DB n) of
              ((firstID, Some err), db') \<Rightarrow> Inl (Fatal err)
            | ((firstID, None), db') \<Rightarrow>
                bootstrapStores_loop bootstraps
                  \<lparr>ident_ClusterID = ClusterID n,
                   ident_NodeID = NodeID (Descriptor n),
                   ident_StoreID = firstID\<rparr>
                  (n\<lparr>ctx_DB := db'\<rparr>)))"

subsection \<open>The Bootstrap Protocol\<close>

text \<open>
  \<^verbatim>\<open>bootstrapCluster\<close> builds a registry and a key/value client of its own and walks the
  engines. The engines are reached through pointers: \<open>b_engines\<close> is the state of the
  slice, updated at index \<open>i\<close> whenever engine \<open>i\<close> is written to, so that it also shows the
  writes of a run that fails ("partial writes across engines are not rolled back").
\<close>

record Bootstrapping =
  b_DB :: DB
  b_stores :: Stores
  b_engines :: "Engine list"

text \<open>
  The body of the loop \<^verbatim>\<open>for i, eng := range engines\<close>: the error of an early
  \<^verbatim>\<open>return "", err\<close>, or \<open>None\<close> when the body reaches its end. \<open>initialValues\<close> is
  \<^verbatim>\<open>GetBootstrapSchema().GetInitialValues()\<close>, computed by packages \<^verbatim>\<open>sql\<close> and \<^verbatim>\<open>storage\<close>.
\<close>

definition bootstrapCluster_body ::
  "string \<Rightarrow> KeyValue list \<Rightarrow> nat \<Rightarrow> Engine \<Rightarrow> Bootstrapping \<Rightarrow> error option \<times> Bootstrapping" where
  "bootstrapCluster_body clusterID initialValues i eng b =
     (let sIdent = \<lparr>ident_ClusterID = clusterID, ident_NodeID = 1, ident_StoreID = int i + 1\<rparr>;
          s = NewStore eng
      in if length (ident_ClusterID (Ident s)) > 0 then
           (Some (AlreadyBelongsToCluster (ident_ClusterID (Ident s))), b)
         else
           (case Bootstrap sIdent s of
              (Some err, s1) \<Rightarrow> (Some err, b)
            | (None, s1) \<Rightarrow>
                (case (if i = 0 then BootstrapRange initialValues s1 else (None, s1)) of
                   (Some err, s2) \<Rightarrow> (Some err, b\<lparr>b_engines := (b_engines b)[i := engine s2]\<rparr>)
                 | (None, s2) \<Rightarrow>
                     (case Start s2 of
                        (Some err, s3) \<Rightarrow>
                          (Some err, b\<lparr>b_engines := (b_engines b)[i := engine s3]\<rparr>)
                      | (None, s3) \<Rightarrow>
                          (let b1 = b\<lparr>b_engines := (b_engines b)[i := engine s3],
                                      b_stores := AddStore s3 (b_stores b)\<rparr>
                           in case (if i = 0 then
                                      (case allocateNodeID (b_DB b1) of
                                         ((nodeID, err), db') \<Rightarrow>
                                           (if nodeID \<noteq> ident_NodeID sIdent \<or> err \<noteq> None
                                            then Some (ExpectedNodeIDAllocator
                                                         (ident_NodeID sIdent) nodeID err)
                                            else None, db'))
                                    else (None, b_DB b1)) of
                                (Some e, db1) \<Rightarrow> (Some e, b1\<lparr>b_DB := db1\<rparr>)
                              | (None, db1) \<Rightarrow>
                                  (case allocateStoreIDs (ident_NodeID sIdent) 1 db1 of
                                     ((storeID, err), db2) \<Rightarrow>
                                       (if storeID \<noteq> ident_StoreID sIdent \<or> err \<noteq> None
                                        then Some (ExpectedStoreIDAllocator
                                                     (ident_StoreID sIdent) storeID err)
                                        else None, b1\<lparr>b_DB := db2\<rparr>)))))))"

fun bootstrapCluster_loop ::
  "string \<Rightarrow> KeyValue list \<Rightarrow> nat \<Rightarrow> Engine list \<Rightarrow> Bootstrapping \<Rightarrow> error option \<times> Bootstrapping" where
  "bootstrapCluster_loop clusterID initialValues i [] b = (None, b)"
| "bootstrapCluster_loop clusterID initialValues i (eng # engs) b =
     (case bootstrapCluster_body clusterID initialValues i eng b of
        (Some err, b') \<Rightarrow> (Some err, b')
      | (None, b') \<Rightarrow> bootstrapCluster_loop clusterID initialValues (Suc i) engs b')"

text \<open>
  \<^verbatim>\<open>bootstrapCluster\<close>. \<open>clusterID\<close> is the string \<^verbatim>\<open>uuid.NewUUID4().String()\<close> generates, and
  \<open>db\<close> the state of the key/value store that the client created inside the function
  reaches through its local sender. The result is the Go pair: \<open>Inl err\<close> for
  \<^verbatim>\<open>("", err)\<close>, \<open>Inr clusterID\<close> for \<^verbatim>\<open>(clusterID, nil)\<close>.
\<close>

definition bootstrapCluster ::
  "string \<Rightarrow> KeyValue list \<Rightarrow> DB \<Rightarrow> Engine list \<Rightarrow> (error + string) \<times> Bootstrapping" where
  "bootstrapCluster clusterID initialValues db engines =
     (case bootstrapCluster_loop clusterID initialValues 0 engines
             \<lparr>b_DB = db, b_stores = NewStores, b_engines = engines\<rparr> of
        (Some err, b) \<Rightarrow> (Inl err, b)
      | (None, b) \<Rightarrow> (Inr clusterID, b))"

subsection \<open>The Store Initializer\<close>

text \<open>
  \<^verbatim>\<open>initStores\<close>, in the three parts of its body. First the loop over the engines: it
  returns the error of an early \<^verbatim>\<open>return\<close> (or \<open>None\<close>), the list \<^verbatim>\<open>bootstraps\<close> and the node.
  The stopper argument is \<^verbatim>\<open>n.stopper\<close> at both calls of the file.
\<close>

fun initStores_loop :: "Engine list \<Rightarrow> Store list \<Rightarrow> Node \<Rightarrow> error option \<times> Store list \<times> Node" where
  "initStores_loop [] bootstraps n = (None, bootstraps, n)"
| "initStores_loop (e # es) bootstraps n =
     (let s = NewStore e
      in case Start s of
           (Some err, s') \<Rightarrow>
             (if err = NotBootstrappedError then initStores_loop es (bootstraps @ [s']) n
              else (Some (FailedToStartStore err), bootstraps, n))
         | (None, s') \<Rightarrow>
             (if ident_ClusterID (Ident s') = [] \<or> ident_NodeID (Ident s') = 0 then
                (Some (UnidentifiedStore s'), bootstraps, n)
              else
                (case Capacity s' of
                   Some err \<Rightarrow> (Some (CouldNotQueryCapacity err), bootstraps, n)
                 | None \<Rightarrow> initStores_loop es bootstraps (n\<lparr>stores := AddStore s' (stores n)\<rparr>))))"

text \<open>
  Second, the block \<^verbatim>\<open>if n.stores.GetStoreCount() == 0 { ... }\<close>: the error it returns, or
  \<open>None\<close> when control leaves the block.
\<close>

definition initStores_check :: "Node \<Rightarrow> error option" where
  "initStores_check n =
     (if GetStoreCount (stores n) = 0 then
        (let resolvers = GetResolvers (ctx_Gossip n)
         in if length resolvers = 0 then Some errNeedsBootstrap
            else if length resolvers = 1 then
              (case GetAddress (resolvers ! 0) of
                 Inl err \<Rightarrow> None
               | Inr (OtherAddr a) \<Rightarrow> None
               | Inr (Unresolved uaddr) \<Rightarrow>
                   if uaddr = Address (Descriptor n) then Some errCannotJoinSelf else None)
            else None)
      else None)"

text \<open>
  Third, the rest of the body, from \<^verbatim>\<open>n.validateStores()\<close> to \<^verbatim>\<open>return nil\<close>.
\<close>

definition initStores_connect :: "Store list \<Rightarrow> Node \<Rightarrow> halt + (error option \<times> Node)" where
  "initStores_connect bootstraps n =
     (case validateStores n of
        Inl h \<Rightarrow> Inl h
      | Inr (Some err, n1) \<Rightarrow> Inr (Some err, n1)
      | Inr (None, n1) \<Rightarrow>
          (case SetStorage (ctx_Gossip n1) of
             (Some err, g) \<Rightarrow> Inr (Some (FailedToInitializeGossip err), n1\<lparr>ctx_Gossip := g\<rparr>)
           | (None, g) \<Rightarrow>
               (case connectGossip (n1\<lparr>ctx_Gossip := g\<rparr>) of
                  Inl h \<Rightarrow> Inl h
                | Inr n2 \<Rightarrow>
                    (case (if NodeID (Descriptor n2) = 0 then initNodeID 0 n2 else Inr n2) of
                       Inl h \<Rightarrow> Inl h
                     | Inr n3 \<Rightarrow>
                         Inr (None,
                              if length bootstraps > 0
                              then n3\<lparr>stopper := RunAsyncTask bootstraps (stopper n3)\<rparr>
                              else n3)))))"

definition initStores :: "Engine list \<Rightarrow> Node \<Rightarrow> halt + (error option \<times> Node)" where
  "initStores engines n =
     (if length engines = 0 then Inr (Some NoEngines, n)
      else
        (case initStores_loop engines [] n of
           (Some err, bootstraps, n1) \<Rightarrow> Inr (Some err, n1)
         | (None, bootstraps, n1) \<Rightarrow>
             (case initStores_check n1 of
                Some err \<Rightarrow> Inr (Some err, n1)
              | None \<Rightarrow> initStores_connect bootstraps n1)))"

text \<open>
  \<^verbatim>\<open>start\<close>. The results of the calls that leave this file are given in \<open>env\<close>: the cluster
  identifier and the seed set of \<^verbatim>\<open>bootstrapCluster\<close> and the key/value store it reaches, the
  resolver \<^verbatim>\<open>resolver.NewResolverFromAddress(addr)\<close> builds, the clock, and the answer of
  \<^verbatim>\<open>rpcServer.Register\<close>. The status monitor and the two workers started by
  \<^verbatim>\<open>startPublishStatuses\<close> and \<^verbatim>\<open>startGossip\<close> run beside the node and are not part of the
  state. The result carries the engines, which \<^verbatim>\<open>bootstrapCluster\<close> writes to.
\<close>

record StartEnv =
  env_clusterID :: string
  env_initialValues :: "KeyValue list"
  env_bootstrapDB :: DB
  env_selfResolver :: "string + Resolver"
  env_now :: int
  env_register_err :: "string option"

definition start ::
  "StartEnv \<Rightarrow> UnresolvedAddr \<Rightarrow> Engine list \<Rightarrow> string list \<Rightarrow> Node \<Rightarrow>
   halt + (error option \<times> Engine list \<times> Node)" where
  "start env addr engines attrs n =
     (case initStores engines (initDescriptor addr attrs n) of
        Inl h \<Rightarrow> Inl h
      | Inr (err, n1) \<Rightarrow>
          (case (case err of
                   None \<Rightarrow> Inr (None, engines, n1)
                 | Some e \<Rightarrow>
                     if e = errNeedsBootstrap then
                       (case bootstrapCluster (env_clusterID env) (env_initialValues env)
                               (env_bootstrapDB env) engines of
                          (Inl err1, b) \<Rightarrow> Inr (Some err1, b_engines b, n1)
                        | (Inr clusterID, b) \<Rightarrow>
                            (case env_selfResolver env of
                               Inl err2 \<Rightarrow> Inr (Some (External err2), b_engines b, n1)
                             | Inr selfResolver \<Rightarrow>
                                 (case initStores (b_engines b)
                                         (n1\<lparr>ctx_Gossip :=
                                               SetResolvers [selfResolver] (ctx_Gossip n1)\<rparr>) of
                                    Inl h \<Rightarrow> Inl h
                                  | Inr (err3, n3) \<Rightarrow> Inr (err3, b_engines b, n3))))
                     else Inr (Some e, engines, n1)) of
             Inl h \<Rightarrow> Inl h
           | Inr (Some e, engs, n4) \<Rightarrow> Inr (Some e, engs, n4)
           | Inr (None, engs, n4) \<Rightarrow>
               (let n5 = n4\<lparr>startedAt := env_now env\<rparr>;
                    n6 = n5\<lparr>feed := feed n5 @ [StartNode (Descriptor n5) (startedAt n5)]\<rparr>
                in case env_register_err env of
                     Some e \<Rightarrow> Inl (FatalRegister (External e))
                   | None \<Rightarrow> Inr (None, engs, n6))))"

subsection \<open>The Command Dispatcher\<close>

text \<open>
  Modelled from the spec: trace spans (packages \<^verbatim>\<open>tracing\<close>, \<^verbatim>\<open>opentracing\<close> and
  \<^verbatim>\<open>standardtracer\<close>, outside this file). The dispatcher is to "derive or join a trace span
  from request-attached trace context (if absent, use a no-op span)", log on it and
  "finalize the trace span". \<^verbatim>\<open>tracing.NoopSpan\<close> records nothing. A span joined from the
  trace context of the request collects the events logged on it; when it is finished, the
  tracer built by \<^verbatim>\<open>standardtracer.New(tracingCB)\<close> hands it to the recorder callback
  \<^verbatim>\<open>tracingCB\<close> ("so that we can grab the span when it's done", as the file says). Joining
  and encoding are done by the tracing packages: their answers are the parameter \<open>tr\<close>.
\<close>

datatype SpanEvent = NodeEvent NodeID | ErrorEvent pError

record RawSpan =
  span_context :: string
  span_logs :: "SpanEvent list"

datatype Span = NoopSpan | JoinedSpan RawSpan

record Tracing =
  JoinTraceFromBinary :: "string \<Rightarrow> string \<Rightarrow> string + RawSpan"
  EncodeRawSpan :: "RawSpan \<Rightarrow> string + string"

text \<open>
  Modelled from the spec: \<^verbatim>\<open>sp.LogEvent(...)\<close>, to "record a node-identifying log event on
  the span".
\<close>

definition LogEvent :: "SpanEvent \<Rightarrow> Span \<Rightarrow> Span" where
  "LogEvent ev sp =
     (case sp of
        NoopSpan \<Rightarrow> NoopSpan
      | JoinedSpan raw \<Rightarrow> JoinedSpan (raw\<lparr>span_logs := span_logs raw @ [ev]\<rparr>))"

text \<open>
  The closure \<^verbatim>\<open>tracingCB\<close>: it appends to \<^verbatim>\<open>br.CollectedSpans\<close>, where \<^verbatim>\<open>br\<close> is the
  variable of \<^verbatim>\<open>executeCmd\<close>, a pointer that is \<^verbatim>\<open>nil\<close> until the routing call assigns it.
\<close>

definition tracingCB :: "Tracing \<Rightarrow> RawSpan \<Rightarrow> BatchResponse option \<Rightarrow> halt + BatchResponse option" where
  "tracingCB tr rawSpan br =
     (case EncodeRawSpan tr rawSpan of
        Inl err \<Rightarrow> Inl (PanicEncodeSpan (External err))
      | Inr encSp \<Rightarrow>
          (case br of
             None \<Rightarrow> Inl PanicNilDereference
           | Some r \<Rightarrow> Inr (Some (r\<lparr>CollectedSpans := CollectedSpans r @ [encSp]\<rparr>))))"

text \<open>
  Modelled from the spec: \<^verbatim>\<open>sp.Finish()\<close>, which is to "finalize the trace span": nothing for
  the no-op span, one call of the recorder callback for a joined span.
\<close>

definition Finish :: "Tracing \<Rightarrow> Span \<Rightarrow> BatchResponse option \<Rightarrow> halt + BatchResponse option" where
  "Finish tr sp br =
     (case sp of
        NoopSpan \<Rightarrow> Inr br
      | JoinedSpan raw \<Rightarrow> tracingCB tr raw br)"

text \<open>
  The closure \<^verbatim>\<open>f\<close> of \<^verbatim>\<open>executeCmd\<close>: it assigns \<^verbatim>\<open>br\<close>, logs on the span and changes the
  node, so it returns the three, as they are when \<^verbatim>\<open>f\<close> ends; the first component is the
  panic that ended it, if one did. Reading \<^verbatim>\<open>br.Error\<close> through a \<^verbatim>\<open>nil\<close> pointer panics.
\<close>

definition executeCmd_f ::
  "Routing \<Rightarrow> BatchRequest \<Rightarrow> Span \<Rightarrow> Node \<Rightarrow> halt option \<times> BatchResponse option \<times> Span \<times> Node" where
  "executeCmd_f routing ba sp n =
     (let sp1 = LogEvent (NodeEvent (NodeID (Descriptor n))) sp
      in case Send routing ba (stores n) of
           ((br, pErr), ls) \<Rightarrow>
             (let n1 = n\<lparr>stores := ls\<rparr>;
                  (br1, sp2) = (case pErr of
                                  Some e \<Rightarrow> (Some emptyResponse, LogEvent (ErrorEvent e) sp1)
                                | None \<Rightarrow> (br, sp1))
              in case br1 of
                   None \<Rightarrow> (Some PanicNilDereference, br1, sp2, n1)
                 | Some r \<Rightarrow>
                     if Error r \<noteq> None then (Some PanicErrorUnexpectedlySet, br1, sp2, n1)
                     else (None, Some (r\<lparr>Error := pErr\<rparr>), sp2,
                           n1\<lparr>feed := feed n1 @ [CallComplete ba pErr]\<rparr>)))"

text \<open>
  \<^verbatim>\<open>executeCmd\<close>. The argument is the \<^verbatim>\<open>*roachpb.BatchRequest\<close> the method is registered
  for. \<^verbatim>\<open>n.stopper.RunTask(f)\<close> runs \<^verbatim>\<open>f\<close> unless the stopper is stopping (modelled from the
  spec: "scoped task admission: if the node is stopping, fail immediately ... and perform
  no dispatch"). \<^verbatim>\<open>defer sp.Finish()\<close> is registered once the span is joined, so it runs on
  every way out after that point, a panic of \<^verbatim>\<open>f\<close> included; a panic of the deferred call
  takes the place of the one under way. The result is the Go pair of a response pointer
  and an error, with the node.
\<close>

definition executeCmd ::
  "Tracing \<Rightarrow> Routing \<Rightarrow> BatchRequest \<Rightarrow> Node \<Rightarrow>
   halt + ((BatchResponse option \<times> error option) \<times> Node)" where
  "executeCmd tr routing ba n =
     (case (case Trace ba of
              None \<Rightarrow> Inr NoopSpan
            | Some t \<Rightarrow>
                (case JoinTraceFromBinary tr (Context t) (Attributes t) of
                   Inl err \<Rightarrow> Inl (CannotUnmarshalTrace (External err))
                 | Inr raw \<Rightarrow> Inr (JoinedSpan raw))) of
        Inl err \<Rightarrow> Inr ((None, Some err), n)
      | Inr sp \<Rightarrow>
          (if stopping (stopper n) then
             (case Finish tr sp None of
                Inl h \<Rightarrow> Inl h
              | Inr br \<Rightarrow> Inr ((None, Some (NodeStopped (NodeID (Descriptor n)))), n))
           else
             (case executeCmd_f routing ba sp n of
                (panicked, br, sp', n') \<Rightarrow>
                  (case Finish tr sp' br of
                     Inl h \<Rightarrow> Inl h
                   | Inr br' \<Rightarrow>
                       (case panicked of
                          Some h \<Rightarrow> Inl h
                        | None \<Rightarrow> Inr ((br', None), n'))))))"

subsection \<open>Concrete inputs\<close>

text \<open>
  Inputs on which the results below are evaluated: a key/value store whose counters have
  never been incremented and whose calls all succeed, and an unformatted engine on which
  no operation fails.
\<close>

definition freshDB :: DB where
  "freshDB = \<lparr>counter = (\<lambda>k. 0), inc_calls = [], inc_err = (\<lambda>i. None)\<rparr>"

definition blankEngine :: "string \<Rightarrow> Engine" where
  "blankEngine name =
     \<lparr>engine_name = name, persisted = None, data = [], start_err = None,
      bootstrap_err = None, range_err = None, capacity_err = None\<rparr>"

text \<open>
  A gossip instance that is connected to a network of cluster \<open>c9\<close> and has no resolver;
  a new node on it; and the same node once it has taken cluster \<open>c9\<close> and NodeID 5.
\<close>

definition exampleGossip :: Gossip where
  "exampleGossip =
     \<lparr>Connected = True, clusterIDInfo = Inr ''c9'', resolvers = [], gossip_NodeID = 0,
      gossip_Descriptor = None, descriptor_err = None, gossip_storage = False,
      storage_err = None\<rparr>"

definition exampleNode :: Node where
  "exampleNode = NewNode freshDB exampleGossip \<lparr>stopping = False, tasks = []\<rparr>"

definition node5 :: Node where
  "node5 = exampleNode\<lparr>ClusterID := ''c9'', Descriptor := (Descriptor exampleNode)\<lparr>NodeID := 5\<rparr>\<rparr>"







text \<open>
  The node of cluster \<open>c9\<close> with NodeID 5, on a key/value store whose store counter stands at
  9, and three pending stores on unformatted engines \<open>A\<close>, \<open>B\<close>, \<open>C\<close>.
\<close>

definition pendingNode :: Node where
  "pendingNode = node5\<lparr>ctx_DB := freshDB\<lparr>counter := (\<lambda>k. 0)(StoreIDGenerator := 9)\<rparr>\<rparr>"

definition pending3 :: "Store list" where
  "pending3 = map (\<lambda>name. NewStore (blankEngine name)) [''A'', ''B'', ''C'']"

text \<open>
  What claim C1 expects of a successful run of the Bootstrap Protocol, in its words: engine
  number \<open>i\<close> (from 0) carries the StoreIdent of the new cluster, of node 1 and of store
  \<open>i + 1\<close>; the seed set is written into engine 0 and into no other; the store registered
  for the engine is started and carries the same StoreIdent. These three definitions are
  the specification the loop of \<^verbatim>\<open>bootstrapCluster\<close> is compared with.
\<close>

definition expected_ident :: "string \<Rightarrow> nat \<Rightarrow> StoreIdent" where
  "expected_ident clusterID i =
     \<lparr>ident_ClusterID = clusterID, ident_NodeID = 1, ident_StoreID = int i + 1\<rparr>"

definition expected_engine :: "string \<Rightarrow> KeyValue list \<Rightarrow> nat \<Rightarrow> Engine \<Rightarrow> Engine" where
  "expected_engine clusterID initialValues i eng =
     (if i = 0
      then eng\<lparr>persisted := Some (expected_ident clusterID i), data := data eng @ initialValues\<rparr>
      else eng\<lparr>persisted := Some (expected_ident clusterID i)\<rparr>)"

definition expected_store :: "string \<Rightarrow> KeyValue list \<Rightarrow> nat \<Rightarrow> Engine \<Rightarrow> Store" where
  "expected_store clusterID initialValues i eng =
     \<lparr>Ident = expected_ident clusterID i,
      engine = expected_engine clusterID initialValues i eng, started = True\<rparr>"


text \<open>Two unformatted engines.\<close>

definition twoEngines :: "Engine list" where
  "twoEngines = [blankEngine ''e1'', blankEngine ''e2'']"

text \<open>
  The address of this node and of a peer; a new node that has its address and the resolvers
  \<open>rs\<close>; and the answers of the calls that \<^verbatim>\<open>start\<close> makes outside the file.
\<close>

definition selfAddr :: UnresolvedAddr where
  "selfAddr = \<lparr>NetworkField = ''tcp'', AddressField = ''node1:26257''\<rparr>"

definition peerAddr :: UnresolvedAddr where
  "peerAddr = \<lparr>NetworkField = ''tcp'', AddressField = ''node2:26257''\<rparr>"

definition joinNode :: "Resolver list \<Rightarrow> Node" where
  "joinNode rs = (initDescriptor selfAddr [] exampleNode)\<lparr>ctx_Gossip := SetResolvers rs exampleGossip\<rparr>"

definition exampleEnv :: StartEnv where
  "exampleEnv =
     \<lparr>env_clusterID = ''c1'', env_initialValues = [(''k'', ''v'')], env_bootstrapDB = freshDB,
      env_selfResolver = Inr (Resolver (Inr (Unresolved selfAddr))), env_now = 0,
      env_register_err = None\<rparr>"

text \<open>
  For the dispatcher: the node of cluster \<open>c9\<close> once its stopper is stopping; a tracer that
  cannot join an empty trace context; a request without trace, and one whose trace context
  is empty; and three routing layers: one that answers, one that reports an error beside a
  response that carries another error, and one that reports no error and hands back a
  response that carries one.
\<close>

definition stoppedNode :: Node where
  "stoppedNode = node5\<lparr>stopper := \<lparr>stopping = True, tasks = []\<rparr>\<rparr>"

definition exampleTracing :: Tracing where
  "exampleTracing =
     \<lparr>JoinTraceFromBinary =
        (\<lambda>c a. if c = [] then Inl ''empty trace context''
               else Inr \<lparr>span_context = c, span_logs = []\<rparr>),
      EncodeRawSpan = (\<lambda>raw. Inr (span_context raw))\<rparr>"

definition badTraceRequest :: BatchRequest where
  "badTraceRequest = \<lparr>Trace = Some \<lparr>Context = [], Attributes = []\<rparr>, Requests = ''get a''\<rparr>"

definition plainRequest :: BatchRequest where
  "plainRequest = \<lparr>Trace = None, Requests = ''get a''\<rparr>"

definition okRouting :: Routing where
  "okRouting = (\<lambda>ss ba. (Some (emptyResponse\<lparr>Responses := ''value of a''\<rparr>), None))"

definition twoErrorsRouting :: Routing where
  "twoErrorsRouting =
     (\<lambda>ss ba. (Some (emptyResponse\<lparr>Error := Some ''e1'', Responses := ''partial''\<rparr>), Some ''e2''))"

definition embeddedErrorRouting :: Routing where
  "embeddedErrorRouting =
     (\<lambda>ss ba. (Some (emptyResponse\<lparr>Error := Some ''e1'', Responses := ''partial''\<rparr>), None))"

text \<open>
  An engine that holds the StoreIdent of store 7 of node 5 of cluster \<open>c9\<close>, and a new node
  with a peer as resolver, on a key/value store whose store counter stands at 7.
\<close>

definition engineA :: Engine where
  "engineA = (blankEngine ''A'')\<lparr>persisted :=
     Some \<lparr>ident_ClusterID = ''c9'', ident_NodeID = 5, ident_StoreID = 7\<rparr>\<rparr>"

definition scenarioNode :: Node where
  "scenarioNode = (joinNode [Resolver (Inr (Unresolved peerAddr))])
     \<lparr>ctx_DB := freshDB\<lparr>counter := (\<lambda>k. 0)(StoreIDGenerator := 7)\<rparr>\<rparr>"

section \<open>Results\<close>

subsection \<open>The allocator\<close>

lemma Inc_ok:
  "inc_err db (length (inc_calls db)) = None \<Longrightarrow>
   Inc k delta db =
     (Inr (counter db k + delta),
      db\<lparr>inc_calls := inc_calls db @ [(k, delta)],
         counter := (counter db)(k := counter db k + delta)\<rparr>)"
  by (simp add: Inc_def Let_def)

lemma Inc_calls: "inc_calls (snd (Inc k delta db)) = inc_calls db @ [(k, delta)]"
  by (simp add: Inc_def Let_def split: option.splits)

lemma Inc_err: "inc_err (snd (Inc k delta db)) = inc_err db"
  by (simp add: Inc_def Let_def split: option.splits)

lemma allocateStoreIDs_success:
  "allocateStoreIDs nodeID inc db = ((first, None), db') \<Longrightarrow>
   inc_err db (length (inc_calls db)) = None \<and>
   counter db' StoreIDGenerator = counter db StoreIDGenerator + inc \<and>
   first = counter db' StoreIDGenerator - inc + 1 \<and>
   inc_calls db' = inc_calls db @ [(StoreIDGenerator, inc)] \<and>
   inc_err db' = inc_err db"
  by (auto simp: allocateStoreIDs_def Inc_def Let_def split: option.splits)

subsection \<open>initNodeID\<close>

lemma initNodeID_set:
  "0 < NodeID (Descriptor n) \<Longrightarrow>
   initNodeID nodeID n =
     (if nodeID < 0 then Inl FatalNegativeNodeID
      else if nodeID = 0 then Inr n
      else Inl (FatalNodeIDAlreadySet nodeID (NodeID (Descriptor n))))"
  by (simp add: initNodeID_def)


lemma initNodeID_keeps:
  assumes "initNodeID nodeID n = Inr n'"
  shows "ClusterID n' = ClusterID n" and "stores n' = stores n" and "stopper n' = stopper n"
    and "feed n' = feed n"
    and "0 < NodeID (Descriptor n) \<Longrightarrow> NodeID (Descriptor n') = NodeID (Descriptor n)"
    and "Address (Descriptor n') = Address (Descriptor n)"
  using assms
  by (auto simp: initNodeID_def allocateNodeID_def SetNodeDescriptor_def SetNodeID_def Let_def
      split: if_splits prod.splits option.splits sum.splits)

subsection \<open>What each operation leaves as it is\<close>

lemma connectGossip_keeps:
  assumes "connectGossip n = Inr n'"
  shows "Descriptor n' = Descriptor n" and "stores n' = stores n" and "stopper n' = stopper n"
    and "feed n' = feed n" and "ctx_DB n' = ctx_DB n" and "ctx_Gossip n' = ctx_Gossip n"
    and "ClusterID n \<noteq> [] \<Longrightarrow> ClusterID n' = ClusterID n"
  using assms
  by (auto simp: connectGossip_def Let_def split: if_splits sum.splits)

lemma validateStores_visitor_keeps:
  assumes "validateStores_visitor s n = Inr (e, n')"
  shows "stores n' = stores n" and "stopper n' = stopper n" and "feed n' = feed n"
    and "0 < NodeID (Descriptor n) \<Longrightarrow> NodeID (Descriptor n') = NodeID (Descriptor n)"
    and "ClusterID n \<noteq> [] \<Longrightarrow> ClusterID n' = ClusterID n"
    and "Address (Descriptor n') = Address (Descriptor n)"
  using assms
  by (auto simp: validateStores_visitor_def split: if_splits sum.splits dest: initNodeID_keeps)

lemma VisitStores_validate_keeps:
  "VisitStores validateStores_visitor ss n = Inr (e, n') \<Longrightarrow>
   stores n' = stores n \<and> stopper n' = stopper n \<and> feed n' = feed n \<and>
   Address (Descriptor n') = Address (Descriptor n) \<and>
   (0 < NodeID (Descriptor n) \<longrightarrow> NodeID (Descriptor n') = NodeID (Descriptor n)) \<and>
   (ClusterID n \<noteq> [] \<longrightarrow> ClusterID n' = ClusterID n)"
proof (induction ss arbitrary: n)
  case Nil
  then show ?case by simp
next
  case (Cons s ss)
  show ?case
  proof (cases "validateStores_visitor s n")
    case (Inl h)
    with Cons.prems show ?thesis by simp
  next
    case (Inr r)
    obtain e1 n1 where r: "r = (e1, n1)" by (cases r)
    note step = validateStores_visitor_keeps [OF Inr [unfolded r]]
    show ?thesis
    proof (cases e1)
      case None
      with Cons.prems Inr r have "VisitStores validateStores_visitor ss n1 = Inr (e, n')"
        by simp
      from Cons.IH [OF this] step show ?thesis by auto
    next
      case (Some err)
      with Cons.prems Inr r have "n' = n1" by simp
      with step show ?thesis by auto
    qed
  qed
qed

lemma validateStores_keeps:
  assumes "validateStores n = Inr (e, n')"
  shows "stores n' = stores n" and "stopper n' = stopper n" and "feed n' = feed n"
    and "Address (Descriptor n') = Address (Descriptor n)"
    and "0 < NodeID (Descriptor n) \<Longrightarrow> NodeID (Descriptor n') = NodeID (Descriptor n)"
    and "ClusterID n \<noteq> [] \<Longrightarrow> ClusterID n' = ClusterID n"
  using VisitStores_validate_keeps [OF assms [unfolded validateStores_def]] by simp_all

lemma bootstrapStores_loop_keeps:
  "bootstrapStores_loop ss sIdent n = Inr n' \<Longrightarrow>
   Descriptor n' = Descriptor n \<and> ClusterID n' = ClusterID n \<and> ctx_DB n' = ctx_DB n \<and>
   ctx_Gossip n' = ctx_Gossip n \<and> stopper n' = stopper n \<and> feed n' = feed n \<and>
   sent (stores n') = sent (stores n)"
proof (induction ss arbitrary: sIdent n)
  case Nil
  then show ?case by simp
next
  case (Cons s ss)
  from Cons.prems obtain s1 s2 where
    "bootstrapStores_loop ss (sIdent\<lparr>ident_StoreID := ident_StoreID sIdent + 1\<rparr>)
       (n\<lparr>stores := AddStore s2 (stores n)\<rparr>) = Inr n'"
    by (auto split: prod.splits option.splits)
  from Cons.IH [OF this] show ?case by (simp add: AddStore_def)
qed

lemma bootstrapStores_keeps:
  assumes "bootstrapStores bootstraps n = Inr n'"
  shows "Descriptor n' = Descriptor n" and "ClusterID n' = ClusterID n"
    and "ctx_Gossip n' = ctx_Gossip n" and "stopper n' = stopper n" and "feed n' = feed n"
    and "sent (stores n') = sent (stores n)"
  using assms
  by (auto simp: bootstrapStores_def Let_def split: if_splits prod.splits option.splits
      dest!: bootstrapStores_loop_keeps)

lemma initStores_loop_keeps:
  "initStores_loop es bs n = (e, bs', n') \<Longrightarrow>
   Descriptor n' = Descriptor n \<and> ClusterID n' = ClusterID n \<and> ctx_DB n' = ctx_DB n \<and>
   ctx_Gossip n' = ctx_Gossip n \<and> stopper n' = stopper n \<and> feed n' = feed n \<and>
   sent (stores n') = sent (stores n)"
proof (induction es arbitrary: bs n)
  case Nil
  then show ?case by simp
next
  case (Cons a es)
  show ?case
  proof (cases "Start (NewStore a)")
    case (Pair r s')
    show ?thesis
    proof (cases r)
      case None
      show ?thesis
      proof (cases "ident_ClusterID (Ident s') = [] \<or> ident_NodeID (Ident s') = 0 \<or>
                    Capacity s' \<noteq> None")
        case True
        with Cons.prems Pair None show ?thesis
          by (auto simp: Let_def split: if_splits option.splits)
      next
        case False
        with Cons.prems Pair None
        have "initStores_loop es bs (n\<lparr>stores := AddStore s' (stores n)\<rparr>) = (e, bs', n')"
          by (auto simp: Let_def)
        from Cons.IH [OF this] show ?thesis by (simp add: AddStore_def)
      qed
    next
      case (Some err)
      show ?thesis
      proof (cases "err = NotBootstrappedError")
        case True
        with Cons.prems Pair Some
        have "initStores_loop es (bs @ [s']) n = (e, bs', n')"
          by (simp add: Let_def)
        from Cons.IH [OF this] show ?thesis .
      next
        case False
        with Cons.prems Pair Some show ?thesis by (simp add: Let_def)
      qed
    qed
  qed
qed

lemma initStores_connect_keeps:
  assumes "initStores_connect bs n = Inr (e, n')"
  shows "0 < NodeID (Descriptor n) \<Longrightarrow> NodeID (Descriptor n') = NodeID (Descriptor n)"
    and "ClusterID n \<noteq> [] \<Longrightarrow> ClusterID n' = ClusterID n"
    and "stores n' = stores n" and "feed n' = feed n"
    and "Address (Descriptor n') = Address (Descriptor n)"
proof -
  from assms obtain e1 n1 where v: "validateStores n = Inr (e1, n1)"
    by (auto simp: initStores_connect_def split: sum.splits)
  note k1 = validateStores_keeps [OF v]
  have "(0 < NodeID (Descriptor n) \<longrightarrow> NodeID (Descriptor n') = NodeID (Descriptor n)) \<and>
        (ClusterID n \<noteq> [] \<longrightarrow> ClusterID n' = ClusterID n) \<and>
        stores n' = stores n \<and> feed n' = feed n \<and>
        Address (Descriptor n') = Address (Descriptor n)"
  proof (cases e1)
    case (Some err)
    with assms v have "n' = n1" by (simp add: initStores_connect_def)
    with k1 show ?thesis by simp
  next
    case None
    obtain se g where sg: "SetStorage (ctx_Gossip n1) = (se, g)"
      by (cases "SetStorage (ctx_Gossip n1)")
    show ?thesis
    proof (cases se)
      case (Some err)
      with assms v None sg have "n' = n1\<lparr>ctx_Gossip := g\<rparr>"
        by (simp add: initStores_connect_def)
      with k1 show ?thesis by simp
    next
      case None2: None
      from assms v None sg None2 obtain n2 where
        c: "connectGossip (n1\<lparr>ctx_Gossip := g\<rparr>) = Inr n2"
        by (auto simp: initStores_connect_def split: sum.splits)
      note k2 = connectGossip_keeps [OF c]
      from assms v None sg None2 c obtain n3 where
        i: "(if NodeID (Descriptor n2) = 0 then initNodeID 0 n2 else Inr n2) = Inr n3"
        and n': "n' = (if length bs > 0 then n3\<lparr>stopper := RunAsyncTask bs (stopper n3)\<rparr> else n3)"
        by (auto simp: initStores_connect_def split: sum.splits)
      have k3: "ClusterID n3 = ClusterID n2" "stores n3 = stores n2" "feed n3 = feed n2"
        "Address (Descriptor n3) = Address (Descriptor n2)"
        "0 < NodeID (Descriptor n2) \<Longrightarrow> NodeID (Descriptor n3) = NodeID (Descriptor n2)"
        using i by (auto split: if_splits dest: initNodeID_keeps)
      from k1 k2 k3 n' show ?thesis by auto
    qed
  qed
  then show "0 < NodeID (Descriptor n) \<Longrightarrow> NodeID (Descriptor n') = NodeID (Descriptor n)"
    and "ClusterID n \<noteq> [] \<Longrightarrow> ClusterID n' = ClusterID n"
    and "stores n' = stores n" and "feed n' = feed n"
    and "Address (Descriptor n') = Address (Descriptor n)"
    by simp_all
qed

lemma initStores_keeps:
  assumes "initStores engines n = Inr (e, n')"
  shows "0 < NodeID (Descriptor n) \<Longrightarrow> NodeID (Descriptor n') = NodeID (Descriptor n)"
    and "ClusterID n \<noteq> [] \<Longrightarrow> ClusterID n' = ClusterID n"
    and "feed n' = feed n" and "sent (stores n') = sent (stores n)"
    and "Address (Descriptor n') = Address (Descriptor n)"
proof -
  have "(0 < NodeID (Descriptor n) \<longrightarrow> NodeID (Descriptor n') = NodeID (Descriptor n)) \<and>
        (ClusterID n \<noteq> [] \<longrightarrow> ClusterID n' = ClusterID n) \<and>
        feed n' = feed n \<and> sent (stores n') = sent (stores n) \<and>
        Address (Descriptor n') = Address (Descriptor n)"
  proof (cases "length engines = 0")
    case True
    with assms show ?thesis by (simp add: initStores_def)
  next
    case False
    obtain e1 bs n1 where l: "initStores_loop engines [] n = (e1, bs, n1)"
      by (cases "initStores_loop engines [] n")
    note k1 = initStores_loop_keeps [OF l]
    show ?thesis
    proof (cases "e1 = None \<and> initStores_check n1 = None")
      case True
      with assms False l have "initStores_connect bs n1 = Inr (e, n')"
        by (simp add: initStores_def)
      from initStores_connect_keeps [OF this] k1 show ?thesis by auto
    next
      case False2: False
      with assms False l have "n' = n1"
        by (auto simp: initStores_def split: option.splits)
      with k1 show ?thesis by simp
    qed
  qed
  then show "0 < NodeID (Descriptor n) \<Longrightarrow> NodeID (Descriptor n') = NodeID (Descriptor n)"
    and "ClusterID n \<noteq> [] \<Longrightarrow> ClusterID n' = ClusterID n"
    and "feed n' = feed n" and "sent (stores n') = sent (stores n)"
    and "Address (Descriptor n') = Address (Descriptor n)"
    by simp_all
qed

lemma executeCmd_f_keeps:
  assumes "executeCmd_f routing ba sp n = (p, br, sp', n')"
  shows "Descriptor n' = Descriptor n" and "ClusterID n' = ClusterID n"
    and "stopper n' = stopper n" and "storeMap (stores n') = storeMap (stores n)"
  using assms
  by (auto simp: executeCmd_f_def Send_def Let_def split: prod.splits option.splits if_splits)

lemma executeCmd_keeps:
  assumes "executeCmd tr routing ba n = Inr (r, n')"
  shows "Descriptor n' = Descriptor n" and "ClusterID n' = ClusterID n"
    and "stopper n' = stopper n" and "storeMap (stores n') = storeMap (stores n)"
proof -
  have "n' = n \<or> (\<exists>p br sp sp'. executeCmd_f routing ba sp n = (p, br, sp', n'))"
    using assms
    by (auto simp: executeCmd_def split: sum.splits option.splits if_splits prod.splits)
  then show "Descriptor n' = Descriptor n" and "ClusterID n' = ClusterID n"
    and "stopper n' = stopper n" and "storeMap (stores n') = storeMap (stores n)"
    by (auto dest: executeCmd_f_keeps)
qed

lemma start_keeps:
  assumes "start env addr engines attrs n = Inr (e, engs, n')"
  shows "0 < NodeID (Descriptor n) \<Longrightarrow> NodeID (Descriptor n') = NodeID (Descriptor n)"
    and "ClusterID n \<noteq> [] \<Longrightarrow> ClusterID n' = ClusterID n"
proof -
  let ?n0 = "initDescriptor addr attrs n"
  let ?P = "\<lambda>m m'. (0 < NodeID (Descriptor m) \<longrightarrow> NodeID (Descriptor m') = NodeID (Descriptor m)) \<and>
                      (ClusterID m \<noteq> [] \<longrightarrow> ClusterID m' = ClusterID m)"
  have n0: "NodeID (Descriptor ?n0) = NodeID (Descriptor n)" "ClusterID ?n0 = ClusterID n"
    by (simp_all add: initDescriptor_def)
  from assms obtain err n1 where i1: "initStores engines ?n0 = Inr (err, n1)"
    by (auto simp: start_def split: sum.splits)
  from initStores_keeps(1,2) [OF i1] n0 have k1: "?P n n1" by simp
  have "?P n1 n'"
  proof (cases "err = Some errNeedsBootstrap")
    case False
    with assms i1 have "NodeID (Descriptor n') = NodeID (Descriptor n1) \<and> ClusterID n' = ClusterID n1"
      by (cases err) (auto simp: start_def Let_def split: option.splits)
    then show ?thesis by simp
  next
    case True
    obtain r b where bc: "bootstrapCluster (env_clusterID env) (env_initialValues env)
                            (env_bootstrapDB env) engines = (r, b)"
      by (cases "bootstrapCluster (env_clusterID env) (env_initialValues env)
                   (env_bootstrapDB env) engines")
    show ?thesis
    proof (cases "\<exists>cid sr. r = Inr cid \<and> env_selfResolver env = Inr sr")
      case False
      with assms i1 True bc have "n' = n1"
        by (cases r; cases "env_selfResolver env") (auto simp: start_def)
      then show ?thesis by simp
    next
      case True2: True
      then obtain cid sr where r: "r = Inr cid" and sr: "env_selfResolver env = Inr sr" by blast
      let ?n2 = "n1\<lparr>ctx_Gossip := SetResolvers [sr] (ctx_Gossip n1)\<rparr>"
      from assms i1 True bc r sr obtain err3 n3 where
        i2: "initStores (b_engines b) ?n2 = Inr (err3, n3)"
        by (cases "initStores (b_engines b) ?n2") (auto simp: start_def)
      from assms i1 True bc r sr i2
      have "NodeID (Descriptor n') = NodeID (Descriptor n3) \<and> ClusterID n' = ClusterID n3"
        by (cases err3) (auto simp: start_def Let_def split: option.splits)
      with initStores_keeps(1,2) [OF i2] show ?thesis by simp
    qed
  qed
  with k1 show "0 < NodeID (Descriptor n) \<Longrightarrow> NodeID (Descriptor n') = NodeID (Descriptor n)"
    and "ClusterID n \<noteq> [] \<Longrightarrow> ClusterID n' = ClusterID n"
    by auto
qed

subsection \<open>validateStores\<close>




subsection \<open>bootstrapStores\<close>

lemma Bootstrap_Start:
  "bootstrap_err (engine s) = None \<Longrightarrow> start_err (engine s) = None \<Longrightarrow>
   Bootstrap sIdent s = (None, s\<lparr>Ident := sIdent, engine := (engine s)\<lparr>persisted := Some sIdent\<rparr>\<rparr>) \<and>
   Start (s\<lparr>Ident := sIdent, engine := (engine s)\<lparr>persisted := Some sIdent\<rparr>\<rparr>) =
     (None, s\<lparr>Ident := sIdent, engine := (engine s)\<lparr>persisted := Some sIdent\<rparr>, started := True\<rparr>)"
  by (simp add: Bootstrap_def Start_def)

lemma bootstrapStores_loop_healthy:
  "bootstrapStores_loop ss sIdent n = Inr n' \<Longrightarrow>
   \<forall>s \<in> set ss. bootstrap_err (engine s) = None \<and> start_err (engine s) = None"
proof (induction ss arbitrary: sIdent n)
  case Nil
  then show ?case by simp
next
  case (Cons s ss)
  from Cons.prems have h: "bootstrap_err (engine s) = None \<and> start_err (engine s) = None"
    by (auto simp: Bootstrap_def Start_def split: option.splits)
  with Cons.prems Bootstrap_Start [of s sIdent] obtain s2 where
    "bootstrapStores_loop ss (sIdent\<lparr>ident_StoreID := ident_StoreID sIdent + 1\<rparr>)
       (n\<lparr>stores := AddStore s2 (stores n)\<rparr>) = Inr n'"
    by auto
  from Cons.IH [OF this] h show ?case by simp
qed

lemma bootstrapStores_loop_run:
  "\<forall>s \<in> set ss. bootstrap_err (engine s) = None \<and> start_err (engine s) = None \<Longrightarrow>
   bootstrapStores_loop ss sIdent n =
     Inr (n\<lparr>stores := (stores n)\<lparr>storeMap := storeMap (stores n) @
            map (\<lambda>i. (ss ! i)\<lparr>Ident := sIdent\<lparr>ident_StoreID := ident_StoreID sIdent + int i\<rparr>,
                               engine := (engine (ss ! i))\<lparr>persisted :=
                                  Some (sIdent\<lparr>ident_StoreID := ident_StoreID sIdent + int i\<rparr>)\<rparr>,
                               started := True\<rparr>)
                [0..<length ss]\<rparr>\<rparr>)"
proof (induction ss arbitrary: sIdent n)
  case Nil
  then show ?case by simp
next
  case (Cons s ss)
  from Cons.prems have h: "bootstrap_err (engine s) = None" "start_err (engine s) = None"
    and rest: "\<forall>s \<in> set ss. bootstrap_err (engine s) = None \<and> start_err (engine s) = None"
    by simp_all
  show ?case
    by (simp add: Bootstrap_Start [OF h] Cons.IH [OF rest] AddStore_def map_upt_Suc
        del: upt_Suc)
qed


lemma bootstrapStores_returns:
  assumes "bootstrapStores bootstraps n = Inr n'"
  shows "ClusterID n \<noteq> []"
    and "\<exists>first db'. allocateStoreIDs (NodeID (Descriptor n)) (int (length bootstraps)) (ctx_DB n) =
           ((first, None), db')"
    and "\<forall>s \<in> set bootstraps. bootstrap_err (engine s) = None \<and> start_err (engine s) = None"
  using assms
  by (auto simp: bootstrapStores_def Let_def split: if_splits prod.splits option.splits
      dest!: bootstrapStores_loop_healthy)

subsection \<open>bootstrapCluster\<close>

lemma bootstrapCluster_body_success:
  assumes "bootstrapCluster_body cid iv i eng b = (None, b')"
  shows "b_engines b' = (b_engines b)[i := expected_engine cid iv i eng]"
    and "b_stores b' = AddStore (expected_store cid iv i eng) (b_stores b)"
    and "ident_ClusterID (Ident (NewStore eng)) = []"
  using assms
  by (auto simp: bootstrapCluster_body_def Let_def Bootstrap_def BootstrapRange_def Start_def
      expected_engine_def expected_store_def expected_ident_def NewStore_def
      split: if_splits option.splits prod.splits)


lemma bootstrapCluster_loop_success:
  "bootstrapCluster_loop cid iv i engs b = (None, b') \<Longrightarrow>
   b_engines b = done @ engs \<Longrightarrow> length done = i \<Longrightarrow>
   b_engines b' = done @ map (\<lambda>j. expected_engine cid iv (i + j) (engs ! j)) [0..<length engs] \<and>
   storeMap (b_stores b') = storeMap (b_stores b) @
     map (\<lambda>j. expected_store cid iv (i + j) (engs ! j)) [0..<length engs] \<and>
   (\<forall>e \<in> set engs. ident_ClusterID (Ident (NewStore e)) = [])"
proof (induction engs arbitrary: i b "done")
  case Nil
  then show ?case by simp
next
  case (Cons eng engs)
  from Cons.prems(1) obtain b1 where
    body: "bootstrapCluster_body cid iv i eng b = (None, b1)"
    and loop: "bootstrapCluster_loop cid iv (Suc i) engs b1 = (None, b')"
    by (auto split: prod.splits option.splits)
  note s = bootstrapCluster_body_success [OF body]
  from s(1) Cons.prems(2,3)
  have e1: "b_engines b1 = (done @ [expected_engine cid iv i eng]) @ engs"
    by (simp add: list_update_append)
  have l1: "length (done @ [expected_engine cid iv i eng]) = Suc i"
    using Cons.prems(3) by simp
  from Cons.IH [OF loop e1 l1] s(2,3) show ?case
    by (simp add: map_upt_Suc AddStore_def del: upt_Suc)
qed


lemma bootstrapCluster_body_fresh:
  assumes "persisted eng = None" and "bootstrap_err eng = None" and "range_err eng = None"
    and "start_err eng = None"
    and "inc_err (b_DB b) = (\<lambda>i. None)" and "counter (b_DB b) StoreIDGenerator = int i"
    and "i = 0 \<longrightarrow> counter (b_DB b) NodeIDGenerator = 0"
  shows "\<exists>b'. bootstrapCluster_body cid iv i eng b = (None, b') \<and>
           inc_err (b_DB b') = (\<lambda>i. None) \<and> counter (b_DB b') StoreIDGenerator = int (Suc i)"
  using assms
  by (cases "i = 0")
    (simp_all add: bootstrapCluster_body_def Let_def Bootstrap_def BootstrapRange_def Start_def
      NewStore_def zeroIdent_def allocateNodeID_def allocateStoreIDs_def Inc_def)

lemma bootstrapCluster_loop_fresh:
  "\<forall>e \<in> set engs. persisted e = None \<and> bootstrap_err e = None \<and> range_err e = None \<and>
      start_err e = None \<Longrightarrow>
   inc_err (b_DB b) = (\<lambda>i. None) \<Longrightarrow> counter (b_DB b) StoreIDGenerator = int i \<Longrightarrow>
   i = 0 \<longrightarrow> counter (b_DB b) NodeIDGenerator = 0 \<Longrightarrow>
   fst (bootstrapCluster_loop cid iv i engs b) = None"
proof (induction engs arbitrary: i b)
  case Nil
  then show ?case by simp
next
  case (Cons eng engs)
  from Cons.prems have h: "persisted eng = None" "bootstrap_err eng = None" "range_err eng = None"
    "start_err eng = None"
    by simp_all
  from bootstrapCluster_body_fresh [OF h Cons.prems(2,3,4)] obtain b' where
    body: "bootstrapCluster_body cid iv i eng b = (None, b')"
    and inv: "inc_err (b_DB b') = (\<lambda>i. None)" "counter (b_DB b') StoreIDGenerator = int (Suc i)"
    by blast
  have "fst (bootstrapCluster_loop cid iv (Suc i) engs b') = None"
    using Cons.prems(1) inv by (intro Cons.IH) simp_all
  with body show ?case by simp
qed

lemma bootstrapCluster_fresh:
  assumes "\<forall>e \<in> set engines. persisted e = None \<and> bootstrap_err e = None \<and>
             range_err e = None \<and> start_err e = None"
  shows "fst (bootstrapCluster cid iv freshDB engines) = Inr cid"
proof -
  have "fst (bootstrapCluster_loop cid iv 0 engines
               \<lparr>b_DB = freshDB, b_stores = NewStores, b_engines = engines\<rparr>) = None"
    using assms by (intro bootstrapCluster_loop_fresh) (simp_all add: freshDB_def)
  then obtain b where "bootstrapCluster_loop cid iv 0 engines
               \<lparr>b_DB = freshDB, b_stores = NewStores, b_engines = engines\<rparr> = (None, b)"
    by (cases "bootstrapCluster_loop cid iv 0 engines
               \<lparr>b_DB = freshDB, b_stores = NewStores, b_engines = engines\<rparr>") auto
  then show ?thesis by (simp add: bootstrapCluster_def)
qed

subsection \<open>initStores\<close>

lemma VisitStores_validate_errors:
  "VisitStores validateStores_visitor ss n = Inr (Some e, n') \<Longrightarrow>
   (\<exists>s c. e = StoreClusterIDMismatch s c) \<or> (\<exists>s i. e = StoreNodeIDMismatch s i)"
proof (induction ss arbitrary: n)
  case Nil
  then show ?case by simp
next
  case (Cons s ss)
  show ?case
  proof (cases "validateStores_visitor s n")
    case (Inl h)
    with Cons.prems show ?thesis by simp
  next
    case (Inr r)
    obtain e1 n1 where r: "r = (e1, n1)" by (cases r)
    show ?thesis
    proof (cases e1)
      case None
      with Cons.prems Inr r have "VisitStores validateStores_visitor ss n1 = Inr (Some e, n')"
        by simp
      from Cons.IH [OF this] show ?thesis .
    next
      case (Some err)
      with Cons.prems Inr r have "validateStores_visitor s n = Inr (Some e, n')" by simp
      then show ?thesis
        by (auto simp: validateStores_visitor_def split: if_splits sum.splits)
    qed
  qed
qed

lemma initStores_connect_errors:
  assumes "initStores_connect bootstraps n = Inr (Some e, n')"
  shows "e \<noteq> errNeedsBootstrap \<and> e \<noteq> errCannotJoinSelf"
proof (cases "validateStores n")
  case (Inl h)
  with assms show ?thesis by (simp add: initStores_connect_def)
next
  case (Inr r)
  obtain e1 n1 where r: "r = (e1, n1)" by (cases r)
  show ?thesis
  proof (cases e1)
    case (Some err)
    with assms Inr r have "validateStores n = Inr (Some e, n')"
      by (simp add: initStores_connect_def)
    from VisitStores_validate_errors [OF this [unfolded validateStores_def]]
    show ?thesis by auto
  next
    case None
    with assms Inr r show ?thesis
      by (auto simp: initStores_connect_def split: prod.splits option.splits sum.splits if_splits)
  qed
qed

lemma joinNode_loop:
  "initStores_loop [blankEngine ''e1''] [] (joinNode rs) =
     (None, [NewStore (blankEngine ''e1'')], joinNode rs)"
  by (simp add: Start_def NewStore_def blankEngine_def)

lemma joinNode_fields:
  "GetStoreCount (stores (joinNode rs)) = 0"
  "GetResolvers (ctx_Gossip (joinNode rs)) = rs"
  "Address (Descriptor (joinNode rs)) = selfAddr"
  by (simp_all add: joinNode_def initDescriptor_def exampleNode_def NewNode_def NewStores_def
      GetStoreCount_def GetResolvers_def SetResolvers_def)

text \<open>
  The first scenario of the spec: one unformatted engine and no resolver. \<^verbatim>\<open>start\<close> gets
  \<^verbatim>\<open>errNeedsBootstrap\<close>, bootstraps the cluster, names itself as resolver and initialises
  the stores again; the node ends with the new ClusterID, NodeID 1 and one store.
\<close>

lemma start_bootstrap_scenario:
  "\<exists>engs n'. start exampleEnv selfAddr [blankEngine ''e1''] []
                (exampleNode\<lparr>ctx_Gossip := exampleGossip\<lparr>clusterIDInfo := Inr ''c1''\<rparr>\<rparr>) =
              Inr (None, engs, n') \<and>
     map persisted engs = [Some \<lparr>ident_ClusterID = ''c1'', ident_NodeID = 1, ident_StoreID = 1\<rparr>] \<and>
     ClusterID n' = ''c1'' \<and> NodeID (Descriptor n') = 1 \<and>
     GetStoreCount (stores n') = 1 \<and>
     GetResolvers (ctx_Gossip n') = [Resolver (Inr (Unresolved selfAddr))]"
  by (simp add: start_def initStores_def initStores_check_def initStores_connect_def
      validateStores_def validateStores_visitor_def bootstrapCluster_def
      bootstrapCluster_body_def initDescriptor_def exampleEnv_def
      exampleNode_def NewNode_def NewStores_def exampleGossip_def SetResolvers_def GetResolvers_def
      SetStorage_def connectGossip_def GetInfo_KeyClusterID_def initNodeID_def
      allocateNodeID_def allocateStoreIDs_def Inc_def freshDB_def SetNodeID_def
      SetNodeDescriptor_def RunAsyncTask_def Start_def Bootstrap_def BootstrapRange_def
      NewStore_def blankEngine_def zeroIdent_def AddStore_def GetStoreCount_def Capacity_def
      Let_def)

subsection \<open>executeCmd\<close>

lemma executeCmd_not_dispatched:
  assumes "stopping (stopper n)" and "executeCmd tr routing ba n = Inr (r, n')"
  shows "n' = n" and "fst r = None"
    and "snd r = Some (NodeStopped (NodeID (Descriptor n))) \<or>
         (\<exists>e. snd r = Some (CannotUnmarshalTrace e))"
  using assms
  by (auto simp: executeCmd_def split: option.splits sum.splits)

lemma stopped_traced_panics:
  assumes "stopping (stopper n)" and "Trace ba = Some t"
    and "JoinTraceFromBinary tr (Context t) (Attributes t) = Inr raw"
  shows "executeCmd tr routing ba n =
           Inl (case EncodeRawSpan tr raw of
                  Inl err \<Rightarrow> PanicEncodeSpan (External err)
                | Inr encSp \<Rightarrow> PanicNilDereference)"
  using assms
  by (simp add: executeCmd_def Finish_def tracingCB_def split: sum.splits)

lemma executeCmd_f_error:
  assumes "routing (storeMap (stores n)) ba = (br, Some e)"
  shows "executeCmd_f routing ba sp n =
           (None, Some (emptyResponse\<lparr>Error := Some e\<rparr>),
            LogEvent (ErrorEvent e) (LogEvent (NodeEvent (NodeID (Descriptor n))) sp),
            n\<lparr>stores := (stores n)\<lparr>sent := sent (stores n) @ [ba]\<rparr>,
               feed := feed n @ [CallComplete ba (Some e)]\<rparr>)"
  using assms by (simp add: executeCmd_f_def Send_def Let_def emptyResponse_def)

text \<open>
  The second scenario of the spec: engine \<open>A\<close> is bootstrapped, engine \<open>B\<close> is blank, and a
  peer is given. \<^verbatim>\<open>initStores\<close> registers \<open>A\<close>, takes cluster and node from it without a call
  of the allocator, and schedules \<open>B\<close>; \<^verbatim>\<open>bootstrapStores\<close> then gives \<open>B\<close> the StoreID 8.
\<close>

lemma join_scenario:
  "\<exists>n' n''. initStores [engineA, blankEngine ''B''] scenarioNode = Inr (None, n') \<and>
     ClusterID n' = ''c9'' \<and> NodeID (Descriptor n') = 5 \<and>
     map Ident (storeMap (stores n')) =
       [\<lparr>ident_ClusterID = ''c9'', ident_NodeID = 5, ident_StoreID = 7\<rparr>] \<and>
     inc_calls (ctx_DB n') = [] \<and>
     tasks (stopper n') = [[NewStore (blankEngine ''B'')]] \<and>
     bootstrapStores [NewStore (blankEngine ''B'')] n' = Inr n'' \<and>
     map Ident (storeMap (stores n'')) =
       [\<lparr>ident_ClusterID = ''c9'', ident_NodeID = 5, ident_StoreID = 7\<rparr>,
        \<lparr>ident_ClusterID = ''c9'', ident_NodeID = 5, ident_StoreID = 8\<rparr>] \<and>
     inc_calls (ctx_DB n'') = [(StoreIDGenerator, 1)]"
  by (simp add: initStores_def initStores_check_def initStores_connect_def
      validateStores_def validateStores_visitor_def bootstrapStores_def
      scenarioNode_def engineA_def joinNode_def peerAddr_def selfAddr_def initDescriptor_def
      exampleNode_def NewNode_def NewStores_def exampleGossip_def SetResolvers_def GetResolvers_def
      SetStorage_def connectGossip_def GetInfo_KeyClusterID_def initNodeID_def
      allocateNodeID_def allocateStoreIDs_def Inc_def freshDB_def SetNodeID_def
      SetNodeDescriptor_def RunAsyncTask_def Start_def Bootstrap_def
      NewStore_def blankEngine_def zeroIdent_def AddStore_def GetStoreCount_def Capacity_def
      Let_def)

subsection \<open>Which stores a visit reaches\<close>



lemma VisitStores_recording:
  "map_sum id (\<lambda>r. (fst r, fst (snd r))) (VisitStores (recording visitor) ss (st, seen)) =
   VisitStores visitor ss st"
proof (induction ss arbitrary: st seen)
  case Nil
  then show ?case by simp
next
  case (Cons s ss)
  show ?case
  proof (cases "visitor s st")
    case (Inl h)
    then show ?thesis by (simp add: recording_def)
  next
    case (Inr r)
    obtain e st' where r: "r = (e, st')" by (cases r)
    show ?thesis
    proof (cases e)
      case None
      with Inr r Cons.IH [of st' "seen @ [s]"] show ?thesis by (simp add: recording_def)
    next
      case (Some err)
      with Inr r show ?thesis by (simp add: recording_def)
    qed
  qed
qed


text \<open>
  C5. \<^verbatim>\<open>allocateStoreIDs\<close> with count \<open>c\<close> returns \<open>result - c + 1\<close>, where \<open>result\<close> is the
  value of the counter after the increment. Of two successful calls in sequence, with
  counts \<open>k\<close> then \<open>m\<close>, the second returns the first identifier of the first call plus
  \<open>k\<close>: the two ranges \<open>[first, first + k)\<close> and \<open>[first + k, first + k + m)\<close> meet end to
  start and share no identifier.
\<close>

theorem allocateStoreIDs_contiguous:
  assumes "allocateStoreIDs nodeID k db = ((first, None), db1)"
    and "allocateStoreIDs nodeID' m db1 = ((second, None), db2)"
  shows "first = counter db1 StoreIDGenerator - k + 1 \<and>
         second = counter db2 StoreIDGenerator - m + 1 \<and>
         second = first + k \<and>
         {first..<first + k} \<inter> {second..<second + m} = {}"
proof -
  from allocateStoreIDs_success [OF assms(1)]
  have 1: "counter db1 StoreIDGenerator = counter db StoreIDGenerator + k"
    "first = counter db1 StoreIDGenerator - k + 1"
    by simp_all
  from allocateStoreIDs_success [OF assms(2)]
  have 2: "counter db2 StoreIDGenerator = counter db1 StoreIDGenerator + m"
    "second = counter db2 StoreIDGenerator - m + 1"
    by simp_all
  from 1 2 have "second = first + k" by simp
  then show ?thesis using 1 2 by auto
qed

theorem allocateStoreIDs_contiguous_witness:
  "allocateStoreIDs 1 3 freshDB =
     ((1, None), \<lparr>counter = (\<lambda>k. 0)(StoreIDGenerator := 3),
                  inc_calls = [(StoreIDGenerator, 3)], inc_err = (\<lambda>i. None)\<rparr>) \<and>
   allocateStoreIDs 1 2 \<lparr>counter = (\<lambda>k. 0)(StoreIDGenerator := 3),
                          inc_calls = [(StoreIDGenerator, 3)], inc_err = (\<lambda>i. None)\<rparr> =
     ((4, None), \<lparr>counter = (\<lambda>k. 0)(StoreIDGenerator := 5),
                  inc_calls = [(StoreIDGenerator, 3), (StoreIDGenerator, 2)],
                  inc_err = (\<lambda>i. None)\<rparr>) \<and>
   (4::int) = 1 + 3 \<and> {1::int..<1 + 3} \<inter> {4..<4 + 2} = {}"
proof -
  let ?db1 = "\<lparr>counter = (\<lambda>k. 0::int)(StoreIDGenerator := 3),
               inc_calls = [(StoreIDGenerator, 3)], inc_err = (\<lambda>i. None)\<rparr>"
  let ?db2 = "\<lparr>counter = (\<lambda>k. 0::int)(StoreIDGenerator := 5),
               inc_calls = [(StoreIDGenerator, 3), (StoreIDGenerator, 2)],
               inc_err = (\<lambda>i. None)\<rparr>"
  have a: "allocateStoreIDs 1 3 freshDB = ((1, None), ?db1)"
    by (simp add: allocateStoreIDs_def Inc_def freshDB_def Let_def)
  have b: "allocateStoreIDs 1 2 ?db1 = ((4, None), ?db2)"
    by (simp add: allocateStoreIDs_def Inc_def Let_def)
  from allocateStoreIDs_contiguous [OF a b] a b show ?thesis by simp
qed

subsection \<open>The identity of a node is fixed once\<close>

text \<open>
  C3, as the claim states it, fails on the code at a second call with the same NodeID: on a
  node whose NodeID is 5, \<^verbatim>\<open>initNodeID(5)\<close> ends in \<^verbatim>\<open>log.Fatalf\<close> ("cannot initialize NodeID
  to 5, already have 5"); it is not a no-op.
\<close>

theorem initNodeID_same_counterexample:
  "NodeID (Descriptor node5) = 5 \<and> initNodeID 5 node5 = Inl (FatalNodeIDAlreadySet 5 5)"
  by (simp add: initNodeID_def node5_def exampleNode_def NewNode_def)

text \<open>
  C3, amended. Once the NodeID of the node is positive, \<^verbatim>\<open>initNodeID\<close> with 0 is a no-op and
  \<^verbatim>\<open>initNodeID\<close> with any other identifier, the node's own included, halts the process; and
  no operation of the file that returns changes the NodeID.
\<close>

theorem NodeID_set_once:
  assumes "0 < NodeID (Descriptor n)"
  shows "initNodeID nodeID n =
           (if nodeID = 0 then Inr n
            else if nodeID < 0 then Inl FatalNegativeNodeID
            else Inl (FatalNodeIDAlreadySet nodeID (NodeID (Descriptor n)))) \<and>
         NodeID (Descriptor (initDescriptor addr attrs n)) = NodeID (Descriptor n) \<and>
         (\<forall>e n'. validateStores n = Inr (e, n') \<longrightarrow>
            NodeID (Descriptor n') = NodeID (Descriptor n)) \<and>
         (\<forall>n'. connectGossip n = Inr n' \<longrightarrow> NodeID (Descriptor n') = NodeID (Descriptor n)) \<and>
         (\<forall>e n'. initStores engines n = Inr (e, n') \<longrightarrow>
            NodeID (Descriptor n') = NodeID (Descriptor n)) \<and>
         (\<forall>n'. bootstrapStores bootstraps n = Inr n' \<longrightarrow>
            NodeID (Descriptor n') = NodeID (Descriptor n)) \<and>
         (\<forall>r n'. executeCmd tr routing ba n = Inr (r, n') \<longrightarrow>
            NodeID (Descriptor n') = NodeID (Descriptor n)) \<and>
         (\<forall>e engs n'. start env addr engines attrs n = Inr (e, engs, n') \<longrightarrow>
            NodeID (Descriptor n') = NodeID (Descriptor n))"
proof -
  have a: "initNodeID nodeID n =
           (if nodeID = 0 then Inr n
            else if nodeID < 0 then Inl FatalNegativeNodeID
            else Inl (FatalNodeIDAlreadySet nodeID (NodeID (Descriptor n))))"
    using assms by (simp add: initNodeID_set)
  have b: "NodeID (Descriptor (initDescriptor addr attrs n)) = NodeID (Descriptor n)"
    by (simp add: initDescriptor_def)
  have c: "\<forall>e n'. validateStores n = Inr (e, n') \<longrightarrow>
            NodeID (Descriptor n') = NodeID (Descriptor n)"
    using assms by (auto dest: validateStores_keeps(5))
  have d: "\<forall>n'. connectGossip n = Inr n' \<longrightarrow> NodeID (Descriptor n') = NodeID (Descriptor n)"
    by (auto dest: connectGossip_keeps(1))
  have e: "\<forall>e n'. initStores engines n = Inr (e, n') \<longrightarrow>
            NodeID (Descriptor n') = NodeID (Descriptor n)"
    using assms by (auto dest: initStores_keeps(1))
  have f: "\<forall>n'. bootstrapStores bootstraps n = Inr n' \<longrightarrow>
            NodeID (Descriptor n') = NodeID (Descriptor n)"
    by (auto dest: bootstrapStores_keeps(1))
  have g: "\<forall>r n'. executeCmd tr routing ba n = Inr (r, n') \<longrightarrow>
            NodeID (Descriptor n') = NodeID (Descriptor n)"
    by (auto dest: executeCmd_keeps(1))
  have h: "\<forall>e engs n'. start env addr engines attrs n = Inr (e, engs, n') \<longrightarrow>
            NodeID (Descriptor n') = NodeID (Descriptor n)"
    using assms by (auto dest: start_keeps(1))
  from a b c d e f g h show ?thesis by blast
qed

theorem NodeID_set_once_witness:
  "0 < NodeID (Descriptor node5) \<and>
   initNodeID 0 node5 = Inr node5 \<and>
   initNodeID 7 node5 = Inl (FatalNodeIDAlreadySet 7 5) \<and>
   initNodeID (- 1) node5 = Inl FatalNegativeNodeID \<and>
   connectGossip node5 = Inr node5 \<and>
   validateStores node5 = Inr (None, node5) \<and>
   NodeID (Descriptor node5) = 5"
proof -
  have pos: "0 < NodeID (Descriptor node5)"
    by (simp add: node5_def exampleNode_def NewNode_def)
  have id5: "NodeID (Descriptor node5) = 5"
    by (simp add: node5_def exampleNode_def NewNode_def)
  have cg: "connectGossip node5 = Inr node5"
    by (simp add: connectGossip_def node5_def exampleNode_def NewNode_def exampleGossip_def
        GetInfo_KeyClusterID_def Let_def)
  have vs: "validateStores node5 = Inr (None, node5)"
    by (simp add: validateStores_def node5_def exampleNode_def NewNode_def NewStores_def)
  from NodeID_set_once [OF pos, of 0] have "initNodeID 0 node5 = Inr node5" by simp
  moreover from NodeID_set_once [OF pos, of 7]
  have "initNodeID 7 node5 = Inl (FatalNodeIDAlreadySet 7 5)" by (simp add: id5)
  moreover from NodeID_set_once [OF pos, of "- 1"]
  have "initNodeID (- 1) node5 = Inl FatalNegativeNodeID" by simp
  ultimately show ?thesis using pos id5 cg vs by simp
qed

text \<open>
  C7. In \<^verbatim>\<open>connectGossip\<close>, once the gossip network is connected and answers with a cluster
  identifier: a node with an empty ClusterID adopts the gossiped one; a node whose ClusterID
  is set and differs halts the process, so no node carries on with either value; a node
  whose ClusterID agrees is returned as it is. And no operation of the file that returns
  changes a ClusterID that is set: one ClusterID at most is live in the life of a process.
\<close>

theorem ClusterID_set_once:
  "(Connected (ctx_Gossip n) \<and> clusterIDInfo (ctx_Gossip n) = Inr gossipClusterID \<longrightarrow>
      connectGossip n =
        (if ClusterID n = [] then Inr (n\<lparr>ClusterID := gossipClusterID\<rparr>)
         else if ClusterID n \<noteq> gossipClusterID then
           Inl (FatalClusterMismatch (NodeID (Descriptor n)) (ClusterID n) gossipClusterID)
         else Inr n)) \<and>
   (ClusterID n \<noteq> [] \<longrightarrow>
      (\<forall>n'. connectGossip n = Inr n' \<longrightarrow> ClusterID n' = ClusterID n) \<and>
      (\<forall>nodeID n'. initNodeID nodeID n = Inr n' \<longrightarrow> ClusterID n' = ClusterID n) \<and>
      ClusterID (initDescriptor addr attrs n) = ClusterID n \<and>
      (\<forall>e n'. validateStores n = Inr (e, n') \<longrightarrow> ClusterID n' = ClusterID n) \<and>
      (\<forall>e n'. initStores engines n = Inr (e, n') \<longrightarrow> ClusterID n' = ClusterID n) \<and>
      (\<forall>n'. bootstrapStores bootstraps n = Inr n' \<longrightarrow> ClusterID n' = ClusterID n) \<and>
      (\<forall>r n'. executeCmd tr routing ba n = Inr (r, n') \<longrightarrow> ClusterID n' = ClusterID n) \<and>
      (\<forall>e engs n'. start env addr engines attrs n = Inr (e, engs, n') \<longrightarrow>
         ClusterID n' = ClusterID n))"
proof -
  have a: "Connected (ctx_Gossip n) \<and> clusterIDInfo (ctx_Gossip n) = Inr gossipClusterID \<longrightarrow>
      connectGossip n =
        (if ClusterID n = [] then Inr (n\<lparr>ClusterID := gossipClusterID\<rparr>)
         else if ClusterID n \<noteq> gossipClusterID then
           Inl (FatalClusterMismatch (NodeID (Descriptor n)) (ClusterID n) gossipClusterID)
         else Inr n)"
    by (simp add: connectGossip_def GetInfo_KeyClusterID_def Let_def)
  have b: "ClusterID (initDescriptor addr attrs n) = ClusterID n"
    by (simp add: initDescriptor_def)
  have c: "ClusterID n \<noteq> [] \<longrightarrow>
           (\<forall>n'. connectGossip n = Inr n' \<longrightarrow> ClusterID n' = ClusterID n)"
    by (auto dest: connectGossip_keeps(7))
  have d: "\<forall>nodeID n'. initNodeID nodeID n = Inr n' \<longrightarrow> ClusterID n' = ClusterID n"
    by (auto dest: initNodeID_keeps(1))
  have e: "ClusterID n \<noteq> [] \<longrightarrow>
           (\<forall>e n'. validateStores n = Inr (e, n') \<longrightarrow> ClusterID n' = ClusterID n)"
    by (auto dest: validateStores_keeps(6))
  have f: "ClusterID n \<noteq> [] \<longrightarrow>
           (\<forall>e n'. initStores engines n = Inr (e, n') \<longrightarrow> ClusterID n' = ClusterID n)"
    by (auto dest: initStores_keeps(2))
  have g: "\<forall>n'. bootstrapStores bootstraps n = Inr n' \<longrightarrow> ClusterID n' = ClusterID n"
    by (auto dest: bootstrapStores_keeps(2))
  have h: "\<forall>r n'. executeCmd tr routing ba n = Inr (r, n') \<longrightarrow> ClusterID n' = ClusterID n"
    by (auto dest: executeCmd_keeps(2))
  have i: "ClusterID n \<noteq> [] \<longrightarrow>
           (\<forall>e engs n'. start env addr engines attrs n = Inr (e, engs, n') \<longrightarrow>
              ClusterID n' = ClusterID n)"
    by (auto dest: start_keeps(2))
  from a b c d e f g h i show ?thesis by blast
qed

theorem ClusterID_set_once_witness:
  "Connected (ctx_Gossip exampleNode) \<and>
   clusterIDInfo (ctx_Gossip exampleNode) = Inr ''c9'' \<and>
   ClusterID exampleNode = [] \<and>
   connectGossip exampleNode = Inr (exampleNode\<lparr>ClusterID := ''c9''\<rparr>) \<and>
   connectGossip (node5\<lparr>ClusterID := ''c1''\<rparr>) = Inl (FatalClusterMismatch 5 ''c1'' ''c9'') \<and>
   ClusterID node5 = ''c9'' \<and>
   connectGossip node5 = Inr node5"
proof -
  have g: "Connected (ctx_Gossip exampleNode)" "clusterIDInfo (ctx_Gossip exampleNode) = Inr ''c9''"
    "ClusterID exampleNode = []"
    by (simp_all add: exampleNode_def NewNode_def exampleGossip_def)
  have g5: "Connected (ctx_Gossip node5)" "clusterIDInfo (ctx_Gossip node5) = Inr ''c9''"
    "ClusterID node5 = ''c9''" "NodeID (Descriptor node5) = 5"
    by (simp_all add: node5_def exampleNode_def NewNode_def exampleGossip_def)
  from ClusterID_set_once [of exampleNode "''c9''"] g
  have 1: "connectGossip exampleNode = Inr (exampleNode\<lparr>ClusterID := ''c9''\<rparr>)" by simp
  from ClusterID_set_once [of "node5\<lparr>ClusterID := ''c1''\<rparr>" "''c9''"] g5
  have 2: "connectGossip (node5\<lparr>ClusterID := ''c1''\<rparr>) = Inl (FatalClusterMismatch 5 ''c1'' ''c9'')"
    by simp
  from ClusterID_set_once [of node5 "''c9''"] g5
  have 3: "connectGossip node5 = Inr node5" by simp
  from g g5 1 2 3 show ?thesis by simp
qed

subsection \<open>The Identity Validator\<close>




subsection \<open>Bootstrapping the pending stores\<close>

text \<open>
  C4. On a node with a ClusterID, when the allocator call of \<^verbatim>\<open>bootstrapStores\<close> for the \<open>k\<close>
  pending stores returns \<open>first\<close> and no engine refuses to be bootstrapped or started,
  \<^verbatim>\<open>bootstrapStores\<close> returns; it has made one call of the allocator, with count \<open>k\<close>; the
  stores added to the registry are the pending stores in the order of the list, store \<open>i\<close>
  carrying, in its handle and persisted in its engine, the StoreIdent of the node's ClusterID
  and NodeID and of StoreID \<open>first + i\<close>. (Lemma \<open>bootstrapStores_returns\<close>: a call that
  returns is such a call.)
\<close>

theorem bootstrapStores_assigns:
  assumes "ClusterID n \<noteq> []"
    and "allocateStoreIDs (NodeID (Descriptor n)) (int (length bootstraps)) (ctx_DB n) =
           ((first, None), db')"
    and "\<forall>s \<in> set bootstraps. bootstrap_err (engine s) = None \<and> start_err (engine s) = None"
  shows "\<exists>n'. bootstrapStores bootstraps n = Inr n' \<and>
           inc_calls (ctx_DB n') =
             inc_calls (ctx_DB n) @ [(StoreIDGenerator, int (length bootstraps))] \<and>
           storeMap (stores n') = storeMap (stores n) @
             map (\<lambda>i. (bootstraps ! i)
                    \<lparr>Ident := \<lparr>ident_ClusterID = ClusterID n,
                               ident_NodeID = NodeID (Descriptor n),
                               ident_StoreID = first + int i\<rparr>,
                     engine := (engine (bootstraps ! i))
                       \<lparr>persisted := Some \<lparr>ident_ClusterID = ClusterID n,
                                           ident_NodeID = NodeID (Descriptor n),
                                           ident_StoreID = first + int i\<rparr>\<rparr>,
                     started := True\<rparr>)
               [0..<length bootstraps] \<and>
           ClusterID n' = ClusterID n \<and> Descriptor n' = Descriptor n"
proof -
  let ?sIdent = "\<lparr>ident_ClusterID = ClusterID n, ident_NodeID = NodeID (Descriptor n),
                  ident_StoreID = first\<rparr>"
  have run: "bootstrapStores bootstraps n = bootstrapStores_loop bootstraps ?sIdent (n\<lparr>ctx_DB := db'\<rparr>)"
    using assms(1,2) by (simp add: bootstrapStores_def Let_def)
  have calls: "inc_calls db' = inc_calls (ctx_DB n) @ [(StoreIDGenerator, int (length bootstraps))]"
    using allocateStoreIDs_success [OF assms(2)] by simp
  show ?thesis
    unfolding run bootstrapStores_loop_run [OF assms(3)]
    by (simp add: calls)
qed

theorem bootstrapStores_assigns_witness:
  "ClusterID pendingNode = ''c9'' \<and> NodeID (Descriptor pendingNode) = 5 \<and>
   fst (allocateStoreIDs 5 3 (ctx_DB pendingNode)) = (10, None) \<and>
   (\<exists>n'. bootstrapStores pending3 pendingNode = Inr n' \<and>
      inc_calls (ctx_DB n') = [(StoreIDGenerator, 3)] \<and>
      map Ident (storeMap (stores n')) =
        [\<lparr>ident_ClusterID = ''c9'', ident_NodeID = 5, ident_StoreID = 10\<rparr>,
         \<lparr>ident_ClusterID = ''c9'', ident_NodeID = 5, ident_StoreID = 11\<rparr>,
         \<lparr>ident_ClusterID = ''c9'', ident_NodeID = 5, ident_StoreID = 12\<rparr>] \<and>
      map (\<lambda>s. engine_name (engine s)) (storeMap (stores n')) = [''A'', ''B'', ''C''] \<and>
      map (\<lambda>s. persisted (engine s)) (storeMap (stores n')) =
        map (\<lambda>s. Some (Ident s)) (storeMap (stores n')))"
proof -
  have n: "ClusterID pendingNode = ''c9''" "NodeID (Descriptor pendingNode) = 5"
    "inc_calls (ctx_DB pendingNode) = []" "storeMap (stores pendingNode) = []"
    by (simp_all add: pendingNode_def node5_def exampleNode_def NewNode_def freshDB_def
        NewStores_def)
  have ne: "ClusterID pendingNode \<noteq> []" by (simp add: n)
  have len: "length pending3 = 3" by (simp add: pending3_def)
  obtain db' where db': "db' = snd (allocateStoreIDs 5 3 (ctx_DB pendingNode))" by simp
  have al: "allocateStoreIDs (NodeID (Descriptor pendingNode)) (int (length pending3))
              (ctx_DB pendingNode) = ((10, None), db')"
    by (simp add: db' n len allocateStoreIDs_def Inc_def Let_def pendingNode_def freshDB_def)
  have ok: "\<forall>s \<in> set pending3. bootstrap_err (engine s) = None \<and> start_err (engine s) = None"
    by (simp add: pending3_def NewStore_def blankEngine_def)
  from bootstrapStores_assigns [OF ne al ok] obtain n' where
    r: "bootstrapStores pending3 pendingNode = Inr n'"
    and c: "inc_calls (ctx_DB n') = [(StoreIDGenerator, 3)]"
    and m: "storeMap (stores n') =
             map (\<lambda>i. (pending3 ! i)
                    \<lparr>Ident := \<lparr>ident_ClusterID = ''c9'', ident_NodeID = 5,
                               ident_StoreID = 10 + int i\<rparr>,
                     engine := (engine (pending3 ! i))
                       \<lparr>persisted := Some \<lparr>ident_ClusterID = ''c9'', ident_NodeID = 5,
                                           ident_StoreID = 10 + int i\<rparr>\<rparr>,
                     started := True\<rparr>)
               [0..<3]"
    by (auto simp: n len)
  have u: "[0..<3] = [0, 1, 2]" by (simp add: upt_rec)
  have "map Ident (storeMap (stores n')) =
        [\<lparr>ident_ClusterID = ''c9'', ident_NodeID = 5, ident_StoreID = 10\<rparr>,
         \<lparr>ident_ClusterID = ''c9'', ident_NodeID = 5, ident_StoreID = 11\<rparr>,
         \<lparr>ident_ClusterID = ''c9'', ident_NodeID = 5, ident_StoreID = 12\<rparr>]"
    and "map (\<lambda>s. engine_name (engine s)) (storeMap (stores n')) = [''A'', ''B'', ''C'']"
    and "map (\<lambda>s. persisted (engine s)) (storeMap (stores n')) =
        map (\<lambda>s. Some (Ident s)) (storeMap (stores n'))"
    by (simp_all add: m u pending3_def NewStore_def blankEngine_def)
  with r c have "\<exists>n'. bootstrapStores pending3 pendingNode = Inr n' \<and>
      inc_calls (ctx_DB n') = [(StoreIDGenerator, 3)] \<and>
      map Ident (storeMap (stores n')) =
        [\<lparr>ident_ClusterID = ''c9'', ident_NodeID = 5, ident_StoreID = 10\<rparr>,
         \<lparr>ident_ClusterID = ''c9'', ident_NodeID = 5, ident_StoreID = 11\<rparr>,
         \<lparr>ident_ClusterID = ''c9'', ident_NodeID = 5, ident_StoreID = 12\<rparr>] \<and>
      map (\<lambda>s. engine_name (engine s)) (storeMap (stores n')) = [''A'', ''B'', ''C''] \<and>
      map (\<lambda>s. persisted (engine s)) (storeMap (stores n')) =
        map (\<lambda>s. Some (Ident s)) (storeMap (stores n'))"
    by (intro exI [of _ n'] conjI)
  moreover from al have "fst (allocateStoreIDs 5 3 (ctx_DB pendingNode)) = (10, None)"
    by (simp add: n len)
  ultimately show ?thesis using n by simp
qed

subsection \<open>The Bootstrap Protocol\<close>

text \<open>
  C1. For a non-empty list of \<open>N\<close> engines, a run of \<^verbatim>\<open>bootstrapCluster\<close> that succeeds
  returns the generated ClusterID; the StoreIdent persisted in engine number \<open>i\<close> (counted
  from 1, in the order of the list) has this ClusterID, NodeID 1 and StoreID \<open>i\<close>, so the
  StoreIDs are 1 to \<open>N\<close> in engine order, and the store registered for the engine carries
  the same StoreIdent; the seed set is written into the first engine and the data of every
  other engine is as it was. (Lemma \<open>bootstrapCluster_fresh\<close>: on unformatted engines
  that report no error and a key/value store never used, the run succeeds.)
\<close>

theorem bootstrapCluster_idents:
  assumes "engines \<noteq> []"
    and "bootstrapCluster clusterID initialValues db engines = (Inr cid, b)"
  shows "cid = clusterID \<and>
         map persisted (b_engines b) =
           map (\<lambda>i. Some \<lparr>ident_ClusterID = clusterID, ident_NodeID = 1, ident_StoreID = int i\<rparr>)
             [1..<Suc (length engines)] \<and>
         map engine_name (b_engines b) = map engine_name engines \<and>
         map Ident (storeMap (b_stores b)) =
           map (\<lambda>i. \<lparr>ident_ClusterID = clusterID, ident_NodeID = 1, ident_StoreID = int i\<rparr>)
             [1..<Suc (length engines)] \<and>
         map engine (storeMap (b_stores b)) = b_engines b \<and>
         data (hd (b_engines b)) = data (hd engines) @ initialValues \<and>
         map data (tl (b_engines b)) = map data (tl engines)"
proof -
  let ?b0 = "\<lparr>b_DB = db, b_stores = NewStores, b_engines = engines\<rparr>"
  from assms(2) have cid: "cid = clusterID"
    and loop: "bootstrapCluster_loop clusterID initialValues 0 engines ?b0 = (None, b)"
    by (auto simp: bootstrapCluster_def split: prod.splits option.splits)
  from bootstrapCluster_loop_success [OF loop, of "[]"]
  have engs: "b_engines b =
      map (\<lambda>j. expected_engine clusterID initialValues j (engines ! j)) [0..<length engines]"
    and sts: "storeMap (b_stores b) =
      map (\<lambda>j. expected_store clusterID initialValues j (engines ! j)) [0..<length engines]"
    by (simp_all add: NewStores_def)
  have 1: "map persisted (b_engines b) =
           map (\<lambda>i. Some \<lparr>ident_ClusterID = clusterID, ident_NodeID = 1, ident_StoreID = int i\<rparr>)
             [1..<Suc (length engines)]"
    unfolding engs
    by (rule nth_equalityI) (simp_all add: expected_engine_def expected_ident_def del: upt_Suc)
  have 2: "map engine_name (b_engines b) = map engine_name engines"
    unfolding engs
    by (rule nth_equalityI) (simp_all add: expected_engine_def del: upt_Suc)
  have 3: "map Ident (storeMap (b_stores b)) =
           map (\<lambda>i. \<lparr>ident_ClusterID = clusterID, ident_NodeID = 1, ident_StoreID = int i\<rparr>)
             [1..<Suc (length engines)]"
    unfolding sts
    by (rule nth_equalityI) (simp_all add: expected_store_def expected_ident_def del: upt_Suc)
  have 4: "map engine (storeMap (b_stores b)) = b_engines b"
    unfolding sts engs
    by (rule nth_equalityI) (simp_all add: expected_store_def del: upt_Suc)
  obtain e es where e: "engines = e # es" using assms(1) by (cases engines) auto
  have 5: "data (hd (b_engines b)) = data (hd engines) @ initialValues"
    unfolding engs e by (simp add: upt_rec [of 0] expected_engine_def)
  have 6: "map data (tl (b_engines b)) = map data (tl engines)"
    unfolding engs e
    by (rule nth_equalityI) (simp_all add: map_upt_Suc expected_engine_def del: upt_Suc)
  from cid 1 2 3 4 5 6 show ?thesis by simp
qed


theorem bootstrapCluster_idents_witness:
  "twoEngines \<noteq> [] \<and>
   fst (bootstrapCluster ''c1'' [(''k'', ''v'')] freshDB twoEngines) = Inr ''c1'' \<and>
   map persisted (b_engines (snd (bootstrapCluster ''c1'' [(''k'', ''v'')] freshDB twoEngines))) =
     [Some \<lparr>ident_ClusterID = ''c1'', ident_NodeID = 1, ident_StoreID = 1\<rparr>,
      Some \<lparr>ident_ClusterID = ''c1'', ident_NodeID = 1, ident_StoreID = 2\<rparr>] \<and>
   map data (b_engines (snd (bootstrapCluster ''c1'' [(''k'', ''v'')] freshDB twoEngines))) =
     [[(''k'', ''v'')], []]"
proof -
  let ?r = "bootstrapCluster ''c1'' [(''k'', ''v'')] freshDB twoEngines"
  have ne: "twoEngines \<noteq> []" by (simp add: twoEngines_def)
  have ok: "fst ?r = Inr ''c1''"
    by (rule bootstrapCluster_fresh) (simp add: twoEngines_def blankEngine_def)
  then have run: "?r = (Inr ''c1'', snd ?r)" by (simp add: prod_eq_iff)
  have u: "[1..<Suc (length twoEngines)] = [1, 2]"
    by (simp add: twoEngines_def upt_rec)
  from bootstrapCluster_idents [OF ne run, unfolded u]
  have p: "map persisted (b_engines (snd ?r)) =
     [Some \<lparr>ident_ClusterID = ''c1'', ident_NodeID = 1, ident_StoreID = 1\<rparr>,
      Some \<lparr>ident_ClusterID = ''c1'', ident_NodeID = 1, ident_StoreID = 2\<rparr>]"
    and h: "data (hd (b_engines (snd ?r))) = data (hd twoEngines) @ [(''k'', ''v'')]"
    and t: "map data (tl (b_engines (snd ?r))) = map data (tl twoEngines)"
    by simp_all
  from p obtain a b where ab: "b_engines (snd ?r) = [a, b]"
    by (auto simp: map_eq_Cons_conv)
  from h t ab have "map data (b_engines (snd ?r)) = [[(''k'', ''v'')], []]"
    by (simp add: twoEngines_def blankEngine_def)
  with ne ok p show ?thesis by simp
qed

subsection \<open>The Store Initializer\<close>

text \<open>
  C2. When the loop of \<^verbatim>\<open>initStores\<close> ends without error and the registry holds no store:
  with no resolver the call returns \<^verbatim>\<open>errNeedsBootstrap\<close>; with one resolver whose address is
  this node's own it returns \<^verbatim>\<open>errCannotJoinSelf\<close>; with more than one resolver, or with one
  whose address is not this node's (or that has no address), it goes on with
  \<^verbatim>\<open>validateStores\<close> and the rest of the body, and whatever it returns then is neither of
  the two errors.
\<close>

theorem initStores_zero_stores:
  assumes "engines \<noteq> []"
    and "initStores_loop engines [] n = (None, bootstraps, n1)"
    and "GetStoreCount (stores n1) = 0"
  shows "(GetResolvers (ctx_Gossip n) = [] \<longrightarrow>
            initStores engines n = Inr (Some errNeedsBootstrap, n1)) \<and>
         (\<forall>r. GetResolvers (ctx_Gossip n) = [r] \<and>
               GetAddress r = Inr (Unresolved (Address (Descriptor n))) \<longrightarrow>
            initStores engines n = Inr (Some errCannotJoinSelf, n1)) \<and>
         (1 < length (GetResolvers (ctx_Gossip n)) \<or>
          (\<exists>r. GetResolvers (ctx_Gossip n) = [r] \<and>
               GetAddress r \<noteq> Inr (Unresolved (Address (Descriptor n)))) \<longrightarrow>
            initStores engines n = initStores_connect bootstraps n1 \<and>
            (\<forall>e n'. initStores engines n = Inr (e, n') \<longrightarrow>
               e \<noteq> Some errNeedsBootstrap \<and> e \<noteq> Some errCannotJoinSelf))"
proof -
  from initStores_loop_keeps [OF assms(2)]
  have k: "ctx_Gossip n1 = ctx_Gossip n" "Descriptor n1 = Descriptor n" by simp_all
  have run: "initStores engines n =
             (case initStores_check n1 of
                Some err \<Rightarrow> Inr (Some err, n1)
              | None \<Rightarrow> initStores_connect bootstraps n1)"
    using assms(1,2) by (simp add: initStores_def)
  have a: "GetResolvers (ctx_Gossip n) = [] \<longrightarrow>
            initStores engines n = Inr (Some errNeedsBootstrap, n1)"
    using assms(3) by (simp add: run initStores_check_def k)
  have b: "\<forall>r. GetResolvers (ctx_Gossip n) = [r] \<and>
               GetAddress r = Inr (Unresolved (Address (Descriptor n))) \<longrightarrow>
            initStores engines n = Inr (Some errCannotJoinSelf, n1)"
    using assms(3) by (simp add: run initStores_check_def k)
  have c: "initStores_check n1 = None"
    if "1 < length (GetResolvers (ctx_Gossip n)) \<or>
          (\<exists>r. GetResolvers (ctx_Gossip n) = [r] \<and>
               GetAddress r \<noteq> Inr (Unresolved (Address (Descriptor n))))"
    using that assms(3)
    by (auto simp: initStores_check_def k Let_def split: sum.splits net_Addr.splits)
  have d: "initStores engines n = initStores_connect bootstraps n1 \<and>
            (\<forall>e n'. initStores engines n = Inr (e, n') \<longrightarrow>
               e \<noteq> Some errNeedsBootstrap \<and> e \<noteq> Some errCannotJoinSelf)"
    if "initStores_check n1 = None"
    using that by (auto simp: run dest: initStores_connect_errors)
  from a b c d show ?thesis by blast
qed

theorem initStores_zero_stores_witness:
  "[blankEngine ''e1''] \<noteq> [] \<and>
   initStores [blankEngine ''e1''] (joinNode []) = Inr (Some errNeedsBootstrap, joinNode []) \<and>
   initStores [blankEngine ''e1''] (joinNode [Resolver (Inr (Unresolved selfAddr))]) =
     Inr (Some errCannotJoinSelf, joinNode [Resolver (Inr (Unresolved selfAddr))]) \<and>
   (\<exists>n'. initStores [blankEngine ''e1''] (joinNode [Resolver (Inr (Unresolved peerAddr))]) =
            Inr (None, n') \<and>
         ClusterID n' = ''c9'' \<and> NodeID (Descriptor n') = 1 \<and>
         tasks (stopper n') = [[NewStore (blankEngine ''e1'')]])"
proof -
  have ne: "[blankEngine ''e1''] \<noteq> []" by simp
  note z = initStores_zero_stores [OF ne joinNode_loop joinNode_fields(1)]
  from z [of "[]"] have 1:
    "initStores [blankEngine ''e1''] (joinNode []) = Inr (Some errNeedsBootstrap, joinNode [])"
    by (simp add: joinNode_fields)
  from z [of "[Resolver (Inr (Unresolved selfAddr))]"] have 2:
    "initStores [blankEngine ''e1''] (joinNode [Resolver (Inr (Unresolved selfAddr))]) =
     Inr (Some errCannotJoinSelf, joinNode [Resolver (Inr (Unresolved selfAddr))])"
    by (simp add: joinNode_fields)
  have "selfAddr \<noteq> peerAddr" by (simp add: selfAddr_def peerAddr_def)
  with z [of "[Resolver (Inr (Unresolved peerAddr))]"] have 3:
    "initStores [blankEngine ''e1''] (joinNode [Resolver (Inr (Unresolved peerAddr))]) =
     initStores_connect [NewStore (blankEngine ''e1'')]
       (joinNode [Resolver (Inr (Unresolved peerAddr))])"
    by (auto simp: joinNode_fields)
  have 4: "\<exists>n'. initStores_connect [NewStore (blankEngine ''e1'')]
                  (joinNode [Resolver (Inr (Unresolved peerAddr))]) = Inr (None, n') \<and>
         ClusterID n' = ''c9'' \<and> NodeID (Descriptor n') = 1 \<and>
         tasks (stopper n') = [[NewStore (blankEngine ''e1'')]]"
    by (simp add: initStores_connect_def validateStores_def joinNode_def initDescriptor_def
        exampleNode_def NewNode_def NewStores_def exampleGossip_def SetResolvers_def
        SetStorage_def connectGossip_def GetInfo_KeyClusterID_def initNodeID_def
        allocateNodeID_def Inc_def freshDB_def SetNodeID_def SetNodeDescriptor_def
        RunAsyncTask_def Let_def)
  from ne 1 2 3 4 show ?thesis by simp
qed

text \<open>
  C10. With an empty list of engines \<^verbatim>\<open>initStores\<close> returns the "no engines" error at once:
  the node is returned as it was, so no store was started or registered and the resolvers
  were not looked at; the error is neither \<^verbatim>\<open>errNeedsBootstrap\<close> nor \<^verbatim>\<open>errCannotJoinSelf\<close>, and
  \<^verbatim>\<open>start\<close> hands it back without entering the branch that runs \<^verbatim>\<open>bootstrapCluster\<close>: the
  node it returns is the one \<^verbatim>\<open>initDescriptor\<close> made.
\<close>

theorem initStores_no_engines:
  "initStores [] n = Inr (Some NoEngines, n) \<and>
   NoEngines \<noteq> errNeedsBootstrap \<and> NoEngines \<noteq> errCannotJoinSelf \<and>
   start env addr [] attrs n = Inr (Some NoEngines, [], initDescriptor addr attrs n)"
  by (simp add: initStores_def start_def)



theorem initStores_no_engines_witness:
  "initStores [] exampleNode = Inr (Some NoEngines, exampleNode) \<and>
   start exampleEnv selfAddr [] [] exampleNode =
     Inr (Some NoEngines, [], initDescriptor selfAddr [] exampleNode) \<and>
   GetResolvers (ctx_Gossip (initDescriptor selfAddr [] exampleNode)) = []"
  using initStores_no_engines [of exampleNode exampleEnv selfAddr "[]"]
  by (simp add: initDescriptor_def exampleNode_def NewNode_def exampleGossip_def GetResolvers_def)

subsection \<open>The Command Dispatcher\<close>

text \<open>
  C8, as the claim states it for every batch request, fails on the code for a request whose
  trace context cannot be joined: \<^verbatim>\<open>executeCmd\<close> joins the trace before it asks the stopper,
  and returns the "cannot unmarshal trace" error, on a stopped node too.
\<close>

theorem executeCmd_stopped_counterexample:
  "stopping (stopper stoppedNode) \<and>
   executeCmd exampleTracing okRouting badTraceRequest stoppedNode =
     Inr ((None, Some (CannotUnmarshalTrace (External ''empty trace context''))), stoppedNode)"
  by (simp add: executeCmd_def stoppedNode_def exampleTracing_def badTraceRequest_def)

text \<open>
  C8, amended. On a node whose stopper is stopping: for a request without trace,
  \<^verbatim>\<open>executeCmd\<close> returns no response and the error "node stopped" with the node's
  NodeID; for a request whose trace cannot be joined, it returns no response and the trace
  error; and every call that returns hands the node back as it was (the routing function
  was not called, no completion event was published), with one of these two errors.
  (Lemma \<open>stopped_traced_panics\<close> is the remaining case, a trace that is joined.)
\<close>

theorem executeCmd_stopped:
  assumes "stopping (stopper n)"
  shows "(Trace ba = None \<longrightarrow>
            executeCmd tr routing ba n =
              Inr ((None, Some (NodeStopped (NodeID (Descriptor n)))), n)) \<and>
         (\<forall>t err. Trace ba = Some t \<and> JoinTraceFromBinary tr (Context t) (Attributes t) = Inl err \<longrightarrow>
            executeCmd tr routing ba n =
              Inr ((None, Some (CannotUnmarshalTrace (External err))), n)) \<and>
         (\<forall>r n'. executeCmd tr routing ba n = Inr (r, n') \<longrightarrow>
            n' = n \<and> sent (stores n') = sent (stores n) \<and> feed n' = feed n \<and> fst r = None \<and>
            (snd r = Some (NodeStopped (NodeID (Descriptor n))) \<or>
             (\<exists>e. snd r = Some (CannotUnmarshalTrace e))))"
proof -
  have a: "Trace ba = None \<longrightarrow>
            executeCmd tr routing ba n =
              Inr ((None, Some (NodeStopped (NodeID (Descriptor n)))), n)"
    using assms by (simp add: executeCmd_def Finish_def)
  have b: "\<forall>t err. Trace ba = Some t \<and> JoinTraceFromBinary tr (Context t) (Attributes t) = Inl err \<longrightarrow>
            executeCmd tr routing ba n =
              Inr ((None, Some (CannotUnmarshalTrace (External err))), n)"
    by (simp add: executeCmd_def)
  have c: "\<forall>r n'. executeCmd tr routing ba n = Inr (r, n') \<longrightarrow>
            n' = n \<and> sent (stores n') = sent (stores n) \<and> feed n' = feed n \<and> fst r = None \<and>
            (snd r = Some (NodeStopped (NodeID (Descriptor n))) \<or>
             (\<exists>e. snd r = Some (CannotUnmarshalTrace e)))"
    using executeCmd_not_dispatched [OF assms] by blast
  from a b c show ?thesis by blast
qed

theorem executeCmd_stopped_witness:
  "stopping (stopper stoppedNode) \<and> Trace plainRequest = None \<and>
   executeCmd exampleTracing okRouting plainRequest stoppedNode =
     Inr ((None, Some (NodeStopped 5)), stoppedNode) \<and>
   Trace badTraceRequest = Some \<lparr>Context = [], Attributes = []\<rparr> \<and>
   JoinTraceFromBinary exampleTracing [] [] = Inl ''empty trace context'' \<and>
   executeCmd exampleTracing okRouting badTraceRequest stoppedNode =
     Inr ((None, Some (CannotUnmarshalTrace (External ''empty trace context''))), stoppedNode) \<and>
   sent (stores stoppedNode) = [] \<and> feed stoppedNode = []"
proof -
  have s: "stopping (stopper stoppedNode)" "NodeID (Descriptor stoppedNode) = 5"
    "sent (stores stoppedNode) = []" "feed stoppedNode = []"
    by (simp_all add: stoppedNode_def node5_def exampleNode_def NewNode_def NewStores_def)
  have p: "Trace plainRequest = None" by (simp add: plainRequest_def)
  have t: "Trace badTraceRequest = Some \<lparr>Context = [], Attributes = []\<rparr>"
    "JoinTraceFromBinary exampleTracing [] [] = Inl ''empty trace context''"
    by (simp_all add: badTraceRequest_def exampleTracing_def)
  from executeCmd_stopped [OF s(1), of plainRequest exampleTracing okRouting] p s
  have 1: "executeCmd exampleTracing okRouting plainRequest stoppedNode =
     Inr ((None, Some (NodeStopped 5)), stoppedNode)"
    by simp
  from executeCmd_stopped [OF s(1), of badTraceRequest exampleTracing okRouting] t
  have 2: "executeCmd exampleTracing okRouting badTraceRequest stoppedNode =
     Inr ((None, Some (CannotUnmarshalTrace (External ''empty trace context''))), stoppedNode)"
    by simp
  from s p t 1 2 show ?thesis by simp
qed

text \<open>
  C9, as the claim states it, fails on the code when the routing layer reports an error
  and its response carries a different one: the response is reset first, so the test of
  \<^verbatim>\<open>br.Error\<close> finds nothing and the call returns.
\<close>

theorem executeCmd_two_errors_counterexample:
  "twoErrorsRouting (storeMap (stores node5)) plainRequest =
     (Some (emptyResponse\<lparr>Error := Some ''e1'', Responses := ''partial''\<rparr>), Some ''e2'') \<and>
   executeCmd exampleTracing twoErrorsRouting plainRequest node5 =
     Inr ((Some (emptyResponse\<lparr>Error := Some ''e2''\<rparr>), None),
          node5\<lparr>stores := (stores node5)\<lparr>sent := [plainRequest]\<rparr>,
                feed := [CallComplete plainRequest (Some ''e2'')]\<rparr>)"
  by (simp add: executeCmd_def executeCmd_f_def Send_def Finish_def LogEvent_def Let_def
      twoErrorsRouting_def plainRequest_def node5_def exampleNode_def NewNode_def NewStores_def
      emptyResponse_def)

text \<open>
  C9, amended. When the routing call reports an error, \<^verbatim>\<open>executeCmd\<close> behaves as if the
  routing layer had handed back no response at all: nothing of that response is forwarded,
  an error it carries included, and for a request without trace the call returns the empty
  response with the reported error attached, having recorded the call on the event feed.
  When the routing call reports no error and its response carries one, a call that
  dispatches panics (for a request without trace, with \<^verbatim>\<open>ErrorUnexpectedlySet\<close>); the only
  calls that return are those that never dispatched because the trace could not be joined.
\<close>

theorem executeCmd_routing_error:
  "(routing (storeMap (stores n)) ba = (br, Some e) \<longrightarrow>
      executeCmd tr routing ba n = executeCmd tr (\<lambda>ss ba. (None, Some e)) ba n \<and>
      (\<not> stopping (stopper n) \<and> Trace ba = None \<longrightarrow>
         executeCmd tr routing ba n =
           Inr ((Some (emptyResponse\<lparr>Error := Some e\<rparr>), None),
                n\<lparr>stores := (stores n)\<lparr>sent := sent (stores n) @ [ba]\<rparr>,
                   feed := feed n @ [CallComplete ba (Some e)]\<rparr>))) \<and>
   (routing (storeMap (stores n)) ba = (Some r, None) \<and> Error r \<noteq> None \<and>
    \<not> stopping (stopper n) \<longrightarrow>
      (Trace ba = None \<longrightarrow> executeCmd tr routing ba n = Inl PanicErrorUnexpectedlySet) \<and>
      (\<forall>res n'. executeCmd tr routing ba n = Inr (res, n') \<longrightarrow>
         fst res = None \<and> (\<exists>err. snd res = Some (CannotUnmarshalTrace err))))"
proof -
  have a: "executeCmd tr routing ba n = executeCmd tr (\<lambda>ss ba. (None, Some e)) ba n"
    if h: "routing (storeMap (stores n)) ba = (br, Some e)"
  proof -
    have f: "executeCmd_f routing ba sp n = executeCmd_f (\<lambda>ss ba. (None, Some e)) ba sp n" for sp
      using h by (simp add: executeCmd_f_def Send_def Let_def)
    show ?thesis unfolding executeCmd_def f ..
  qed
  have b: "executeCmd tr routing ba n =
           Inr ((Some (emptyResponse\<lparr>Error := Some e\<rparr>), None),
                n\<lparr>stores := (stores n)\<lparr>sent := sent (stores n) @ [ba]\<rparr>,
                   feed := feed n @ [CallComplete ba (Some e)]\<rparr>)"
    if "routing (storeMap (stores n)) ba = (br, Some e)" "\<not> stopping (stopper n)" "Trace ba = None"
    using that by (simp add: executeCmd_def executeCmd_f_error Finish_def LogEvent_def)
  have c: "executeCmd tr routing ba n = Inl PanicErrorUnexpectedlySet"
    if "routing (storeMap (stores n)) ba = (Some r, None)" "Error r \<noteq> None"
      "\<not> stopping (stopper n)" "Trace ba = None"
    using that
    by (auto simp: executeCmd_def executeCmd_f_def Send_def Finish_def LogEvent_def Let_def)
  have d: "fst res = None \<and> (\<exists>err. snd res = Some (CannotUnmarshalTrace err))"
    if "routing (storeMap (stores n)) ba = (Some r, None)" "Error r \<noteq> None"
      "\<not> stopping (stopper n)" "executeCmd tr routing ba n = Inr (res, n')" for res n'
    using that
    by (auto simp: executeCmd_def executeCmd_f_def Send_def Let_def
        split: option.splits sum.splits prod.splits if_splits)
  from a b c d show ?thesis by blast
qed

theorem executeCmd_routing_error_witness:
  "executeCmd exampleTracing twoErrorsRouting plainRequest node5 =
     executeCmd exampleTracing (\<lambda>ss ba. (None, Some ''e2'')) plainRequest node5 \<and>
   embeddedErrorRouting (storeMap (stores node5)) plainRequest =
     (Some (emptyResponse\<lparr>Error := Some ''e1'', Responses := ''partial''\<rparr>), None) \<and>
   Error (emptyResponse\<lparr>Error := Some ''e1'', Responses := ''partial''\<rparr>) = Some ''e1'' \<and>
   stopping (stopper node5) = False \<and> Trace plainRequest = None \<and>
   executeCmd exampleTracing embeddedErrorRouting plainRequest node5 =
     Inl PanicErrorUnexpectedlySet"
proof -
  have r2: "twoErrorsRouting (storeMap (stores node5)) plainRequest =
     (Some (emptyResponse\<lparr>Error := Some ''e1'', Responses := ''partial''\<rparr>), Some ''e2'')"
    by (simp add: twoErrorsRouting_def)
  have r1: "embeddedErrorRouting (storeMap (stores node5)) plainRequest =
     (Some (emptyResponse\<lparr>Error := Some ''e1'', Responses := ''partial''\<rparr>), None)"
    by (simp add: embeddedErrorRouting_def)
  have e: "Error (emptyResponse\<lparr>Error := Some ''e1'', Responses := ''partial''\<rparr>) = Some ''e1''"
    by simp
  have s: "stopping (stopper node5) = False" "Trace plainRequest = None"
    by (simp_all add: node5_def exampleNode_def NewNode_def plainRequest_def)
  from executeCmd_routing_error [of twoErrorsRouting node5 plainRequest _ "''e2''" exampleTracing] r2
  have 1: "executeCmd exampleTracing twoErrorsRouting plainRequest node5 =
     executeCmd exampleTracing (\<lambda>ss ba. (None, Some ''e2'')) plainRequest node5"
    by simp
  from executeCmd_routing_error [of embeddedErrorRouting node5 plainRequest _ _ exampleTracing
      "emptyResponse\<lparr>Error := Some ''e1'', Responses := ''partial''\<rparr>"] r1 e s
  have 2: "executeCmd exampleTracing embeddedErrorRouting plainRequest node5 =
     Inl PanicErrorUnexpectedlySet"
    by simp
  from 1 2 r1 e s show ?thesis by simp
qed

end
